theory Spec2Isabelle
  imports Complex_Main
begin

section \<open>Python values, dtypes and columns\<close>

text \<open>
  The exceptions that \<^verbatim>\<open>pymapd/_pandas_loaders.py\<close> raises itself or lets pass from the
  operations it calls. Only the class of the exception is kept, not its message.
\<close>

datatype error =
    TypeError | IndexError | ImportError | KeyError | ValueError
  | AttributeError | OverflowError | UnboundLocalError

definition ebind :: "error + 'a \<Rightarrow> ('a \<Rightarrow> error + 'b) \<Rightarrow> error + 'b" where
  \<comment> \<open>Sequencing of two steps: an exception of the first step ends the call.\<close>
  "ebind m f = (case m of Inl e \<Rightarrow> Inl e | Inr x \<Rightarrow> f x)"

fun emap :: "('a \<Rightarrow> error + 'b) \<Rightarrow> 'a list \<Rightarrow> error + 'b list" where
  \<comment> \<open>A list comprehension or generator whose element expression may raise: the elements are
      evaluated from left to right and the first exception ends the evaluation.\<close>
  "emap f [] = Inr []"
| "emap f (x # xs) = ebind (f x) (\<lambda>y. ebind (emap f xs) (\<lambda>ys. Inr (y # ys)))"

text \<open>
  The element values a column can hold. \<open>PyNone\<close>, \<open>PyNaN\<close> and \<open>PyNaT\<close> are the three
  missing-value markers of pandas. A \<^verbatim>\<open>datetime.date\<close> carries its day number, a
  \<^verbatim>\<open>datetime.datetime\<close> (or a pandas Timestamp, or an element of a datetime64 column) its
  number of nanoseconds since the epoch, a \<^verbatim>\<open>datetime.time\<close> the second of the day, a
  float that is not a NaN its value; any other object is
  \<open>PyOther\<close> with a tag.
\<close>

datatype pyval =
    PyNone | PyNaN | PyNaT
  | PyBool bool
  | PyInt int
  | PyFloat real
  | PyStr string
  | PyDate int
  | PyDatetime int
  | PyTime nat
  | PyOther nat

text \<open>
  Python's \<^verbatim>\<open>isinstance\<close> for the four classes the module tests. It follows the class
  hierarchy: \<^verbatim>\<open>datetime.datetime\<close> is a subclass of \<^verbatim>\<open>datetime.date\<close>, and \<^verbatim>\<open>bool\<close> is a
  subclass of \<^verbatim>\<open>int\<close>.
\<close>

fun isinstance_string_types :: "pyval \<Rightarrow> bool" where
  "isinstance_string_types (PyStr s) = True"
| "isinstance_string_types v = False"

fun isinstance_date :: "pyval \<Rightarrow> bool" where
  "isinstance_date (PyDate d) = True"
| "isinstance_date (PyDatetime t) = True"
| "isinstance_date v = False"

fun isinstance_time :: "pyval \<Rightarrow> bool" where
  "isinstance_time (PyTime t) = True"
| "isinstance_time v = False"

fun isinstance_int :: "pyval \<Rightarrow> bool" where
  "isinstance_int (PyInt i) = True"
| "isinstance_int (PyBool b) = True"
| "isinstance_int v = False"

text \<open>
  A dtype is its numpy kind and its width in bytes (\<^verbatim>\<open>dtype.itemsize\<close>). The five
  predicates of \<^verbatim>\<open>pandas.api.types\<close> that the module imports read the kind only.
\<close>

datatype dkind =
    KBool | KInt | KUInt | KFloat | KComplex | KTimedelta | KDatetime
  | KObject | KBytes | KUnicode | KVoid

record dtype =
  kind :: dkind
  itemsize :: nat

definition is_bool_dtype :: "dtype \<Rightarrow> bool" where
  "is_bool_dtype d = (kind d = KBool)"

definition is_integer_dtype :: "dtype \<Rightarrow> bool" where
  "is_integer_dtype d = (kind d = KInt \<or> kind d = KUInt)"

definition is_float_dtype :: "dtype \<Rightarrow> bool" where
  "is_float_dtype d = (kind d = KFloat)"

definition is_object_dtype :: "dtype \<Rightarrow> bool" where
  "is_object_dtype d = (kind d = KObject)"

definition is_datetime64_any_dtype :: "dtype \<Rightarrow> bool" where
  "is_datetime64_any_dtype d = (kind d = KDatetime)"

definition int64 :: dtype where
  "int64 = \<lparr>kind = KInt, itemsize = 8\<rparr>"

definition object_dtype :: dtype where
  "object_dtype = \<lparr>kind = KObject, itemsize = 8\<rparr>"

definition bool_dtype :: dtype where
  "bool_dtype = \<lparr>kind = KBool, itemsize = 1\<rparr>"

definition uint64 :: dtype where
  "uint64 = \<lparr>kind = KUInt, itemsize = 8\<rparr>"

definition float64 :: dtype where
  "float64 = \<lparr>kind = KFloat, itemsize = 8\<rparr>"

definition datetime64 :: dtype where
  "datetime64 = \<lparr>kind = KDatetime, itemsize = 8\<rparr>"

text \<open>
  A pandas Series is modelled by its value array: the dtype and the elements. The module
  reads a column through \<^verbatim>\<open>.values\<close> and never through its index, so the index of a
  Series is left out.
\<close>

record series =
  s_dtype :: dtype
  s_items :: "pyval list"

text \<open>
  A DataFrame: its index (with the optional name of the index) and its named columns in
  order.
\<close>

record dataframe =
  df_index_name :: "string option"
  df_index :: series
  df_columns :: "(string \<times> series) list"

section \<open>The pandas operations the module calls\<close>

fun isnull :: "pyval \<Rightarrow> bool" where
  "isnull PyNone = True"
| "isnull PyNaN = True"
| "isnull PyNaT = True"
| "isnull v = False"

definition hasnans :: "series \<Rightarrow> bool" where
  "hasnans s = list_ex isnull (s_items s)"

definition isnull_values :: "series \<Rightarrow> bool list" where
  \<comment> \<open>\<^verbatim>\<open>data.isnull().values\<close>\<close>
  "isnull_values s = map isnull (s_items s)"

definition dropna :: "series \<Rightarrow> series" where
  "dropna s = s\<lparr>s_items := filter (\<lambda>v. \<not> isnull v) (s_items s)\<rparr>"

definition iloc0 :: "series \<Rightarrow> error + pyval" where
  \<comment> \<open>\<^verbatim>\<open>s.iloc[0]\<close>: the first element, IndexError on an empty Series.\<close>
  "iloc0 s = (case s_items s of [] \<Rightarrow> Inl IndexError | v # _ \<Rightarrow> Inr v)"

definition in_int64 :: "int \<Rightarrow> bool" where
  "in_int64 i = (- (2 ^ 63) \<le> i \<and> i < 2 ^ 63)"

definition in_uint64 :: "int \<Rightarrow> bool" where
  "in_uint64 i = (0 \<le> i \<and> i < 2 ^ 64)"

fun int64_value :: "pyval \<Rightarrow> bool" where
  "int64_value (PyInt i) = in_int64 i"
| "int64_value v = False"

fun uint64_value :: "pyval \<Rightarrow> bool" where
  "uint64_value (PyInt i) = in_uint64 i"
| "uint64_value v = False"

fun bool_value :: "pyval \<Rightarrow> bool" where
  "bool_value (PyBool b) = True"
| "bool_value v = False"

fun datetime_value :: "pyval \<Rightarrow> bool" where
  "datetime_value (PyDatetime t) = True"
| "datetime_value v = False"

fun float_item :: "pyval \<Rightarrow> bool" where
  \<comment> \<open>The values that numpy stores in a float array: the integers of the two 64-bit
      ranges, the floats, and None, which becomes a NaN.\<close>
  "float_item (PyInt i) = (in_int64 i \<or> in_uint64 i)"
| "float_item (PyFloat r) = True"
| "float_item PyNaN = True"
| "float_item PyNone = True"
| "float_item v = False"

fun negative_int :: "pyval \<Rightarrow> bool" where
  "negative_int (PyInt i) = (i < 0)"
| "negative_int v = False"

fun big_int :: "pyval \<Rightarrow> bool" where
  "big_int (PyInt i) = (2 ^ 63 \<le> i)"
| "big_int v = False"

fun bit_length :: "nat \<Rightarrow> nat" where
  "bit_length n = (if n = 0 then 0 else Suc (bit_length (n div 2)))"

declare bit_length.simps [simp del]

definition float64_of_int :: "int \<Rightarrow> real" where
  \<comment> \<open>The float64 nearest to an integer: 53 significant bits are kept, ties go to the even
      neighbour.\<close>
  "float64_of_int i =
     (let a = nat \<bar>i\<bar>;
          e = bit_length a - 53;
          q = a div 2 ^ e;
          r = a mod 2 ^ e;
          q' = (if 2 ^ e < 2 * r \<or> (2 * r = 2 ^ e \<and> odd q) then q + 1 else q)
      in of_int (sgn i * int (q' * 2 ^ e)))"

definition float_exact :: "nat \<Rightarrow> int \<Rightarrow> bool" where
  \<comment> \<open>Whether an integer is a value of the binary float type of the given width in bytes
      (11, 24 or 53 significant bits).\<close>
  "float_exact w i =
     (let p = (if w \<le> 2 then 11 else if w \<le> 4 then 24 else 53);
          emax = (if w \<le> 2 then 16 else if w \<le> 4 then 128 else 1024);
          a = nat \<bar>i\<bar>
      in bit_length a \<le> emax \<and> a mod 2 ^ (bit_length a - p) = 0)"

fun as_float :: "pyval \<Rightarrow> pyval" where
  "as_float (PyInt i) = PyFloat (float64_of_int i)"
| "as_float PyNone = PyNaN"
| "as_float v = v"

fun float_fill :: "nat \<Rightarrow> pyval \<Rightarrow> bool" where
  \<comment> \<open>The fill values that a float column of the given width holds without a change of
      dtype.\<close>
  "float_fill w (PyFloat r) = True"
| "float_fill w PyNaN = True"
| "float_fill w (PyInt i) = float_exact w i"
| "float_fill w v = False"

definition fillna :: "series \<Rightarrow> pyval \<Rightarrow> error + series" where
  \<comment> \<open>\<^verbatim>\<open>s.fillna(value)\<close>. \<^verbatim>\<open>None\<close> is no fill value (ValueError). A Series without
      missing elements is returned as it is. Otherwise every missing element is replaced
      and the others stay: a float column keeps its dtype when the value is a float or an
      integer that the float type holds exactly, which is stored as a float; in every other
      case the result is an object column holding the value as given. (The rounding of a
      float value to a narrower float column is not modelled.)\<close>
  "fillna s na =
     (if na = PyNone then Inl ValueError
      else if \<not> hasnans s then Inr s
      else if is_float_dtype (s_dtype s) \<and> float_fill (itemsize (s_dtype s)) na then
        Inr (s\<lparr>s_items := map (\<lambda>v. if isnull v then as_float na else v) (s_items s)\<rparr>)
      else
        Inr \<lparr>s_dtype = object_dtype,
             s_items = map (\<lambda>v. if isnull v then na else v) (s_items s)\<rparr>)"

definition trunc :: "real \<Rightarrow> int" where
  \<comment> \<open>Rounding towards zero.\<close>
  "trunc r = (if 0 \<le> r then \<lfloor>r\<rfloor> else \<lceil>r\<rceil>)"

definition py_space :: "char \<Rightarrow> bool" where
  \<comment> \<open>The ASCII characters that Python strips as whitespace.\<close>
  "py_space c = (c = CHR '' '' \<or> (9 \<le> (of_char c :: nat) \<and> (of_char c :: nat) \<le> 13) \<or>
                 (28 \<le> (of_char c :: nat) \<and> (of_char c :: nat) \<le> 31))"

definition py_digit :: "char \<Rightarrow> bool" where
  "py_digit c = (48 \<le> (of_char c :: nat) \<and> (of_char c :: nat) \<le> 57)"

fun digits_value :: "int \<Rightarrow> string \<Rightarrow> int option" where
  \<comment> \<open>Decimal digits, a single underscore allowed between two digits.\<close>
  "digits_value acc [] = Some acc"
| "digits_value acc (c # cs) =
     (if py_digit c then digits_value (10 * acc + (int (of_char c) - 48)) cs
      else if c = CHR ''_'' \<and> cs \<noteq> [] \<and> py_digit (hd cs) then digits_value acc cs
      else None)"

definition parse_int :: "string \<Rightarrow> int option" where
  \<comment> \<open>Python's \<^verbatim>\<open>int(s)\<close> for a string of ASCII characters, \<open>None\<close> where it raises a
      ValueError: whitespace around, an optional sign, then digits starting with a
      digit.\<close>
  "parse_int s =
     (let t = dropWhile py_space (rev (dropWhile py_space (rev s)));
          body = (if t \<noteq> [] \<and> (hd t = CHR ''-'' \<or> hd t = CHR ''+'') then tl t else t)
      in if body \<noteq> [] \<and> py_digit (hd body)
         then map_option (\<lambda>n. if t \<noteq> [] \<and> hd t = CHR ''-'' then - n else n)
                (digits_value 0 body)
         else None)"

fun to_int64 :: "pyval \<Rightarrow> error + pyval" where
  \<comment> \<open>The conversion of one Python object to a 64-bit integer, as \<^verbatim>\<open>astype('int64')\<close>
      applies it to the elements of an object column: Python's \<^verbatim>\<open>int\<close> (exact on
      integers and booleans, truncating a float towards zero, parsing a string, refusing
      None, a NaN and the objects of other classes), then the range check. NaT converts
      to the minimum of the range.\<close>
  "to_int64 (PyInt i) = (if in_int64 i then Inr (PyInt i) else Inl OverflowError)"
| "to_int64 (PyBool b) = Inr (PyInt (if b then 1 else 0))"
| "to_int64 (PyFloat r) =
     (if in_int64 (trunc r) then Inr (PyInt (trunc r)) else Inl OverflowError)"
| "to_int64 (PyStr s) =
     (case parse_int s of
        None \<Rightarrow> Inl ValueError
      | Some i \<Rightarrow> if in_int64 i then Inr (PyInt i) else Inl OverflowError)"
| "to_int64 PyNone = Inl TypeError"
| "to_int64 PyNaN = Inl ValueError"
| "to_int64 PyNaT = Inr (PyInt (- (2 ^ 63)))"
| "to_int64 v = Inl TypeError"

fun element_to_int64 :: "dkind \<Rightarrow> pyval \<Rightarrow> error + pyval" where
  \<comment> \<open>The conversion of one element of a column of the given kind. In a float column it is
      the hardware conversion: truncation towards zero, the minimum of the range for an
      out-of-range float; a NaN is refused. An unsigned integer wraps around; a datetime
      is its number of nanoseconds. Everything else is converted as a Python object.\<close>
  "element_to_int64 KFloat (PyFloat r) =
     Inr (PyInt (if in_int64 (trunc r) then trunc r else - (2 ^ 63)))"
| "element_to_int64 KFloat PyNaN = Inl ValueError"
| "element_to_int64 KUInt (PyInt i) = Inr (PyInt ((i + 2 ^ 63) mod 2 ^ 64 - 2 ^ 63))"
| "element_to_int64 KDatetime (PyDatetime t) =
     Inr (PyInt ((t + 2 ^ 63) mod 2 ^ 64 - 2 ^ 63))"
| "element_to_int64 k v = to_int64 v"

definition astype_int64 :: "series \<Rightarrow> error + series" where
  "astype_int64 s =
     ebind (emap (element_to_int64 (kind (s_dtype s))) (s_items s))
       (\<lambda>vs. Inr \<lparr>s_dtype = int64, s_items = vs\<rparr>)"

definition Series :: "pyval list \<Rightarrow> series" where
  \<comment> \<open>\<^verbatim>\<open>pd.Series(values)\<close> for a sequence of Python objects, with the dtype inferred:
      all booleans give a bool column; all integers of the signed (or else the unsigned)
      64-bit range an int64 (uint64) column; numbers with floats, NaN or None among them a
      float64 column in which the integers are rounded to floats and None is a NaN;
      datetimes with missing markers a datetime64 column; anything else, and the empty
      sequence, an object column.\<close>
  "Series vs =
     (if vs = [] then \<lparr>s_dtype = object_dtype, s_items = []\<rparr>
      else if list_all bool_value vs then \<lparr>s_dtype = bool_dtype, s_items = vs\<rparr>
      else if list_all int64_value vs then \<lparr>s_dtype = int64, s_items = vs\<rparr>
      else if list_all uint64_value vs then \<lparr>s_dtype = uint64, s_items = vs\<rparr>
      else if list_all float_item vs \<and> list_ex (\<lambda>v. v \<noteq> PyNone) vs \<and>
              \<not> (list_ex negative_int vs \<and> list_ex big_int vs)
        then \<lparr>s_dtype = float64, s_items = map as_float vs\<rparr>
      else if list_all (\<lambda>v. datetime_value v \<or> isnull v) vs \<and>
              list_ex (\<lambda>v. datetime_value v \<or> v = PyNaT) vs
        then \<lparr>s_dtype = datetime64,
              s_items = map (\<lambda>v. if isnull v then PyNaT else v) vs\<rparr>
      else \<lparr>s_dtype = object_dtype, s_items = vs\<rparr>)"

definition len :: "dataframe \<Rightarrow> nat" where
  \<comment> \<open>\<^verbatim>\<open>len(df)\<close>: the number of rows.\<close>
  "len df = length (s_items (df_index df))"

definition columns :: "dataframe \<Rightarrow> string list" where
  "columns df = map fst (df_columns df)"

definition getitem :: "dataframe \<Rightarrow> string \<Rightarrow> error + series" where
  \<comment> \<open>\<^verbatim>\<open>df[col]\<close>. A label that several columns share selects a DataFrame, not a Series,
      and the attribute reads that follow fail on it.\<close>
  "getitem df col =
     (case filter (\<lambda>c. fst c = col) (df_columns df) of
        [] \<Rightarrow> Inl KeyError
      | [c] \<Rightarrow> Inr (snd c)
      | _ \<Rightarrow> Inl AttributeError)"

definition reset_index :: "dataframe \<Rightarrow> error + dataframe" where
  \<comment> \<open>\<^verbatim>\<open>df.reset_index()\<close> for a single-level index: the index becomes the first column,
      under its own name, or \<^verbatim>\<open>index\<close>, or \<^verbatim>\<open>level_0\<close> when a column \<^verbatim>\<open>index\<close>
      exists; a name that is already a column label is refused. The new index counts the
      rows.\<close>
  "reset_index df =
     (let name = (case df_index_name df of
                    Some n \<Rightarrow> n
                  | None \<Rightarrow> if ''index'' \<in> set (columns df) then ''level_0'' else ''index'')
      in if name \<in> set (columns df) then Inl ValueError
         else Inr \<lparr>df_index_name = None,
                   df_index = \<lparr>s_dtype = int64,
                               s_items = map (\<lambda>i. PyInt (int i)) [0 ..< len df]\<rparr>,
                   df_columns = (name, df_index df) # df_columns df\<rparr>)"

section \<open>The generated thrift structures\<close>

record TColumnData =
  int_col :: "series option"
  real_col :: "series option"
  str_col :: "series option"
  arr_col :: "series option"

record TColumn =
  tc_data :: TColumnData
  tc_nulls :: "bool list"

record TTypeInfo =
  ti_type :: int

record TColumnType =
  col_name :: string
  col_type :: TTypeInfo

definition TColumnData_kw :: "string \<Rightarrow> series \<Rightarrow> error + TColumnData" where
  \<comment> \<open>\<^verbatim>\<open>TColumnData(**{slot: values})\<close>: one field set by keyword, the others None; a
      keyword that is no field of the structure is a TypeError.\<close>
  "TColumnData_kw slot v =
     (let e = \<lparr>int_col = None, real_col = None, str_col = None, arr_col = None\<rparr>
      in if slot = ''int_col'' then Inr (e\<lparr>int_col := Some v\<rparr>)
         else if slot = ''real_col'' then Inr (e\<lparr>real_col := Some v\<rparr>)
         else if slot = ''str_col'' then Inr (e\<lparr>str_col := Some v\<rparr>)
         else if slot = ''arr_col'' then Inr (e\<lparr>arr_col := Some v\<rparr>)
         else Inl TypeError)"

text \<open>
  The names the module imports from \<^verbatim>\<open>pymapd/_utils.py\<close> and \<^verbatim>\<open>mapd/ttypes.py\<close>, which are
  not among the sources: the three conversions to seconds, the table of null sentinels, the
  table of slot names and the attributes of \<^verbatim>\<open>TDatumType\<close>. The functions below take them
  as a parameter.
\<close>

record utils =
  date_to_seconds :: "series \<Rightarrow> error + series"
  time_to_seconds :: "pyval \<Rightarrow> error + pyval"
  datetime_to_seconds :: "series \<Rightarrow> error + series"
  mapd_to_na :: "string \<rightharpoonup> pyval"
  mapd_to_slot :: "string \<rightharpoonup> string"
  TDatumType :: "string \<rightharpoonup> int"

section \<open>The type resolver\<close>

definition get_mapd_type_from_known :: "dtype \<Rightarrow> error + string" where
  "get_mapd_type_from_known dt =
     (if is_bool_dtype dt then Inr ''BOOL''
      else if is_integer_dtype dt then
        (if itemsize dt \<le> 1 then Inr ''TINYINT''
         else if itemsize dt = 2 then Inr ''SMALLINT''
         else if itemsize dt = 4 then Inr ''INT''
         else Inr ''BIGINT'')
      else if is_float_dtype dt then
        (if itemsize dt \<le> 4 then Inr ''FLOAT''
         else Inr ''DOUBLE'')
      else if is_datetime64_any_dtype dt then Inr ''TIMESTAMP''
      else Inl TypeError)"

definition get_mapd_type_from_object :: "series \<Rightarrow> error + string" where
  "get_mapd_type_from_object data =
     (case iloc0 (dropna data) of
        Inl e \<Rightarrow> Inl IndexError
      | Inr val \<Rightarrow>
          if isinstance_string_types val then Inr ''STR''
          else if isinstance_date val then Inr ''DATE''
          else if isinstance_time val then Inr ''TIME''
          else if isinstance_int val then Inr ''INT''
          else Inl TypeError)"

definition get_mapd_dtype :: "series \<Rightarrow> error + string" where
  "get_mapd_dtype data =
     (if is_object_dtype (s_dtype data) then get_mapd_type_from_object data
      else get_mapd_type_from_known (s_dtype data))"

section \<open>Time-like normalization and the columnar encoder\<close>

definition thrift_cast :: "utils \<Rightarrow> series \<Rightarrow> string \<Rightarrow> error + series option" where
  \<comment> \<open>The result is \<open>None\<close> where the Python function reaches its end without a
      \<^verbatim>\<open>return\<close>.\<close>
  "thrift_cast U data mapd_type =
     (if mapd_type = ''TIMESTAMP'' then
        ebind (datetime_to_seconds U data) (\<lambda>s. Inr (Some s))
      else if mapd_type = ''TIME'' then
        ebind (emap (time_to_seconds U) (s_items data)) (\<lambda>vs. Inr (Some (Series vs)))
      else if mapd_type = ''DATE'' then
        ebind (date_to_seconds U data) (\<lambda>s. Inr (Some s))
      else Inr None)"

text \<open>
  The local variables of \<^verbatim>\<open>build_input_columnar\<close> that live across the iterations of its
  loop. \<open>nulls\<close> is \<open>None\<close> while the variable is unbound.
\<close>

record loop_state =
  input_cols :: "TColumn list"
  all_nulls :: "bool list option"
  nulls :: "bool list option"

definition build_input_columnar_step ::
  "utils \<Rightarrow> dataframe \<Rightarrow> loop_state \<Rightarrow> string \<Rightarrow> error + loop_state" where
  \<comment> \<open>One iteration of the loop over \<^verbatim>\<open>df.columns\<close>.\<close>
  "build_input_columnar_step U df st col =
     ebind (getitem df col) (\<lambda>data.
     ebind (get_mapd_dtype data) (\<lambda>mapd_type.
       let has_nulls = hasnans data;
           st1 = (if has_nulls then st\<lparr>nulls := Some (isnull_values data)\<rparr>
                  else if all_nulls st = None then
                    st\<lparr>all_nulls := Some (replicate (len df) False),
                       nulls := Some (replicate (len df) False)\<rparr>
                  else st)
       in
       ebind (if mapd_type \<in> {''TIME'', ''TIMESTAMP'', ''DATE''}
              then thrift_cast U data mapd_type else Inr (Some data)) (\<lambda>data1.
       ebind (if has_nulls then
                (case data1 of
                   None \<Rightarrow> Inl AttributeError
                 | Some d \<Rightarrow>
                     (case mapd_to_na U mapd_type of
                        None \<Rightarrow> Inl KeyError
                      | Some na \<Rightarrow>
                          ebind (fillna d na) (\<lambda>d1.
                            if mapd_type \<notin> {''FLOAT'', ''DOUBLE'', ''VARCHAR'', ''STR''}
                            then ebind (astype_int64 d1) (\<lambda>d'. Inr (Some d'))
                            else Inr (Some d1))))
              else Inr data1) (\<lambda>data2.
         (case mapd_to_slot U mapd_type of
            None \<Rightarrow> Inl KeyError
          | Some slot \<Rightarrow>
              (case data2 of
                 None \<Rightarrow> Inl AttributeError
               | Some d \<Rightarrow>
                   ebind (TColumnData_kw slot d) (\<lambda>cd.
                     (case nulls st1 of
                        None \<Rightarrow> Inl UnboundLocalError
                      | Some n \<Rightarrow>
                          Inr (st1\<lparr>input_cols :=
                                 input_cols st1 @ [\<lparr>tc_data = cd, tc_nulls = n\<rparr>]\<rparr>)))))))))"

fun build_input_columnar_loop ::
  "utils \<Rightarrow> dataframe \<Rightarrow> string list \<Rightarrow> loop_state \<Rightarrow> error + loop_state" where
  "build_input_columnar_loop U df [] st = Inr st"
| "build_input_columnar_loop U df (col # cols) st =
     ebind (build_input_columnar_step U df st col) (build_input_columnar_loop U df cols)"

definition build_input_columnar :: "utils \<Rightarrow> dataframe \<Rightarrow> bool \<Rightarrow> error + TColumn list" where
  "build_input_columnar U df0 preserve_index =
     ebind (if preserve_index then reset_index df0 else Inr df0) (\<lambda>df.
     ebind (build_input_columnar_loop U df (columns df)
              \<lparr>input_cols = [], all_nulls = None, nulls = None\<rparr>) (\<lambda>st.
       Inr (input_cols st)))"

section \<open>The schema describer\<close>

text \<open>
  What \<^verbatim>\<open>build_row_desc\<close> may be handed: a pandas DataFrame, one of the two pyarrow
  containers, or any other object.
\<close>

datatype pyobj = DataFrame dataframe | RecordBatch | Table | Object nat

definition build_row_desc ::
  "utils \<Rightarrow> bool \<Rightarrow> pyobj \<Rightarrow> bool \<Rightarrow> error + TColumnType list" where
  \<comment> \<open>\<open>pandas_importable\<close> tells whether \<^verbatim>\<open>import pandas\<close> succeeds.\<close>
  "build_row_desc U pandas_importable data0 preserve_index =
     (if \<not> pandas_importable then Inl ImportError
      else case data0 of
        DataFrame df0 \<Rightarrow>
          ebind (if preserve_index then reset_index df0 else Inr df0) (\<lambda>data.
          ebind (emap (\<lambda>col. ebind (getitem data col) (\<lambda>s.
                              ebind (get_mapd_dtype s) (\<lambda>t. Inr (col, t))))
                   (columns data)) (\<lambda>dtypes.
            emap (\<lambda>(name, mapd_type).
                    case TDatumType U mapd_type of
                      None \<Rightarrow> Inl AttributeError
                    | Some t \<Rightarrow> Inr \<lparr>col_name = name, col_type = \<lparr>ti_type = t\<rparr>\<rparr>)
                 dtypes))
      | _ \<Rightarrow> Inl TypeError)"

section \<open>An instance of the imported helpers\<close>

text \<open>
  Modelled from the spec: the helpers and tables of \<^verbatim>\<open>pymapd/_utils.py\<close> and the
  enumeration of \<^verbatim>\<open>mapd/ttypes.py\<close>, which are not among the sources. The conversions
  give integer seconds (a date at midnight of its day, a time since midnight, a datetime
  since the epoch); the sentinels are the minimum of the integer width, a NaN for the two
  float types and a placeholder string for text; the slots are the integer, float and
  string buffers. The spec does not say what a conversion makes of a missing value: this
  instance leaves the marker in place. The concrete evaluations below use this instance;
  the general theorems hold for every instance.
\<close>

fun spec_date_seconds :: "pyval \<Rightarrow> error + pyval" where
  "spec_date_seconds (PyDate d) = Inr (PyInt (86400 * d))"
| "spec_date_seconds (PyDatetime t) = Inr (PyInt (86400 * (t div (86400 * 10 ^ 9))))"
| "spec_date_seconds v = (if isnull v then Inr v else Inl TypeError)"

fun spec_time_seconds :: "pyval \<Rightarrow> error + pyval" where
  "spec_time_seconds (PyTime t) = Inr (PyInt (int t))"
| "spec_time_seconds v = (if isnull v then Inr v else Inl AttributeError)"

fun spec_datetime_seconds :: "pyval \<Rightarrow> error + pyval" where
  "spec_datetime_seconds (PyDatetime t) = Inr (PyInt (t div 10 ^ 9))"
| "spec_datetime_seconds v = (if isnull v then Inr v else Inl TypeError)"

definition spec_utils :: utils where
  "spec_utils =
     \<lparr>date_to_seconds = (\<lambda>s. ebind (emap spec_date_seconds (s_items s)) (\<lambda>vs. Inr (Series vs))),
      time_to_seconds = spec_time_seconds,
      datetime_to_seconds =
        (\<lambda>s. ebind (emap spec_datetime_seconds (s_items s)) (\<lambda>vs. Inr (Series vs))),
      mapd_to_na = map_of
        [(''BOOL'', PyInt (- (2 ^ 7))), (''TINYINT'', PyInt (- (2 ^ 7))),
         (''SMALLINT'', PyInt (- (2 ^ 15))), (''INT'', PyInt (- (2 ^ 31))),
         (''BIGINT'', PyInt (- (2 ^ 63))), (''FLOAT'', PyNaN), (''DOUBLE'', PyNaN),
         (''STR'', PyStr ''NA''), (''DATE'', PyInt (- (2 ^ 63))),
         (''TIME'', PyInt (- (2 ^ 63))), (''TIMESTAMP'', PyInt (- (2 ^ 63)))],
      mapd_to_slot = map_of
        [(''BOOL'', ''int_col''), (''TINYINT'', ''int_col''), (''SMALLINT'', ''int_col''),
         (''INT'', ''int_col''), (''BIGINT'', ''int_col''), (''FLOAT'', ''real_col''),
         (''DOUBLE'', ''real_col''), (''STR'', ''str_col''), (''DATE'', ''int_col''),
         (''TIME'', ''int_col''), (''TIMESTAMP'', ''int_col'')],
      TDatumType = map_of
        [(''BOOL'', 0), (''TINYINT'', 1), (''SMALLINT'', 2), (''INT'', 3), (''BIGINT'', 4),
         (''FLOAT'', 5), (''DOUBLE'', 6), (''STR'', 7), (''DATE'', 8), (''TIME'', 9),
         (''TIMESTAMP'', 10)]\<rparr>"



section \<open>Auxiliary notions for the proofs\<close>

text \<open>
  One iteration of the encoder's loop does two independent things: it computes the buffer
  of the column, which does not depend on the loop's variables, and it updates the mask
  variables. The next three definitions name the two halves, and the buffer of a column
  found by its label, so that lemmas can speak about them; \<open>nulls_bound\<close> is the invariant
  that the variable \<^verbatim>\<open>nulls\<close> is bound once \<^verbatim>\<open>all_nulls\<close> is.
\<close>

definition column_payload :: "utils \<Rightarrow> series \<Rightarrow> string \<Rightarrow> error + TColumnData" where
  "column_payload U data mapd_type =
     ebind (if mapd_type \<in> {''TIME'', ''TIMESTAMP'', ''DATE''}
            then thrift_cast U data mapd_type else Inr (Some data)) (\<lambda>data1.
     ebind (if hasnans data then
              (case data1 of
                 None \<Rightarrow> Inl AttributeError
               | Some d \<Rightarrow>
                   (case mapd_to_na U mapd_type of
                      None \<Rightarrow> Inl KeyError
                    | Some na \<Rightarrow>
                        ebind (fillna d na) (\<lambda>d1.
                          if mapd_type \<notin> {''FLOAT'', ''DOUBLE'', ''VARCHAR'', ''STR''}
                          then ebind (astype_int64 d1) (\<lambda>d'. Inr (Some d'))
                          else Inr (Some d1))))
            else Inr data1) (\<lambda>data2.
       (case mapd_to_slot U mapd_type of
          None \<Rightarrow> Inl KeyError
        | Some slot \<Rightarrow>
            (case data2 of
               None \<Rightarrow> Inl AttributeError
             | Some d \<Rightarrow> TColumnData_kw slot d))))"

definition column_mask :: "dataframe \<Rightarrow> series \<Rightarrow> loop_state \<Rightarrow> loop_state" where
  "column_mask df data st =
     (if hasnans data then st\<lparr>nulls := Some (isnull_values data)\<rparr>
      else if all_nulls st = None then
        st\<lparr>all_nulls := Some (replicate (len df) False),
           nulls := Some (replicate (len df) False)\<rparr>
      else st)"


definition nulls_bound :: "loop_state \<Rightarrow> bool" where
  "nulls_bound st = (all_nulls st = None \<or> nulls st \<noteq> None)"



definition init_state :: loop_state where
  "init_state = \<lparr>input_cols = [], all_nulls = None, nulls = None\<rparr>"

text \<open>
  The elements that the conversion to a 64-bit integer accepts whatever the kind of the
  column is: integers and truncated floats in range, booleans, and strings that spell an
  integer in range.
\<close>

fun int64_convertible :: "pyval \<Rightarrow> bool" where
  "int64_convertible (PyInt n) = in_int64 n"
| "int64_convertible (PyBool b) = True"
| "int64_convertible (PyFloat x) = in_int64 (trunc x)"
| "int64_convertible (PyStr s) = (case parse_int s of None \<Rightarrow> False | Some n \<Rightarrow> in_int64 n)"
| "int64_convertible v = False"

section \<open>Example columns and tables\<close>

definition datetime_first_column :: series where
  \<comment> \<open>An object column whose first non-missing value is a full datetime.\<close>
  "datetime_first_column =
     \<lparr>s_dtype = object_dtype, s_items = [PyNone, PyDatetime 86400, PyStr ''x'']\<rparr>"

definition int_column :: series where
  "int_column = \<lparr>s_dtype = int64, s_items = [PyInt 1, PyInt 2]\<rparr>"

definition stale_mask_table :: dataframe where
  \<comment> \<open>Three columns of two rows: none missing, one missing, none missing.\<close>
  "stale_mask_table =
     \<lparr>df_index_name = None,
      df_index = \<lparr>s_dtype = int64, s_items = [PyInt 0, PyInt 1]\<rparr>,
      df_columns =
        [(''a'', \<lparr>s_dtype = int64, s_items = [PyInt 1, PyInt 2]\<rparr>),
         (''b'', \<lparr>s_dtype = object_dtype, s_items = [PyStr ''x'', PyNone]\<rparr>),
         (''c'', \<lparr>s_dtype = int64, s_items = [PyInt 3, PyInt 4]\<rparr>)]\<rparr>"

definition nullable_ints :: series where
  "nullable_ints = \<lparr>s_dtype = object_dtype, s_items = [PyInt 5, PyNone]\<rparr>"

definition nullable_dates :: series where
  "nullable_dates = \<lparr>s_dtype = object_dtype, s_items = [PyNone, PyDate 1]\<rparr>"

definition nullable_table :: dataframe where
  "nullable_table =
     \<lparr>df_index_name = None,
      df_index = \<lparr>s_dtype = int64, s_items = [PyInt 0, PyInt 1]\<rparr>,
      df_columns = [(''n'', nullable_ints), (''d'', nullable_dates)]\<rparr>"

definition all_missing_column :: series where
  "all_missing_column = \<lparr>s_dtype = object_dtype, s_items = [PyNone, PyNaN]\<rparr>"

definition all_missing_table :: dataframe where
  "all_missing_table =
     \<lparr>df_index_name = None,
      df_index = \<lparr>s_dtype = int64, s_items = [PyInt 0, PyInt 1]\<rparr>,
      df_columns = [(''a'', int_column), (''m'', all_missing_column)]\<rparr>"

definition timestamp_column :: series where
  \<comment> \<open>A datetime64 column: the second day of 1970 and a missing value.\<close>
  "timestamp_column = \<lparr>s_dtype = datetime64, s_items = [PyDatetime (86400 * 10 ^ 9), PyNaT]\<rparr>"

definition timestamp_table :: dataframe where
  "timestamp_table =
     \<lparr>df_index_name = None,
      df_index = \<lparr>s_dtype = int64, s_items = [PyInt 0, PyInt 1]\<rparr>,
      df_columns = [(''t'', timestamp_column)]\<rparr>"

definition mixed_ints :: series where
  \<comment> \<open>An object column of an integer, a string of digits, a boolean and a missing value.\<close>
  "mixed_ints = \<lparr>s_dtype = object_dtype, s_items = [PyInt 5, PyStr ''7'', PyBool True, PyNone]\<rparr>"

definition mixed_table :: dataframe where
  "mixed_table =
     \<lparr>df_index_name = None,
      df_index = \<lparr>s_dtype = int64, s_items = [PyInt 0, PyInt 1, PyInt 2, PyInt 3]\<rparr>,
      df_columns = [(''m'', mixed_ints)]\<rparr>"

section \<open>General lemmas\<close>

lemma ebind_simps [simp]:
  "ebind (Inl e) f = Inl e" "ebind (Inr x) f = f x"
  by (simp_all add: ebind_def)

lemma ebind_Inr_iff: "ebind m f = Inr y \<longleftrightarrow> (\<exists>x. m = Inr x \<and> f x = Inr y)"
  by (cases m) simp_all

lemma ebind_assoc: "ebind (ebind m f) g = ebind m (\<lambda>x. ebind (f x) g)"
  by (cases m) simp_all

lemma bit_length_le: "n < 2 ^ k \<Longrightarrow> bit_length n \<le> k"
proof (induction k arbitrary: n)
  case 0
  then show ?case by (simp add: bit_length.simps)
next
  case (Suc k)
  show ?case
  proof (cases "n = 0")
    case True
    then show ?thesis by (simp add: bit_length.simps)
  next
    case False
    from Suc.prems have "n div 2 < 2 ^ k" by simp
    from Suc.IH[OF this] False show ?thesis
      by (subst bit_length.simps) simp
  qed
qed

lemma bit_length_power: "bit_length (2 ^ k) = Suc k"
  by (induction k) (simp_all add: bit_length.simps)

lemma float64_of_int_small:
  assumes "\<bar>i\<bar> < 2 ^ 53"
  shows "float64_of_int i = of_int i"
proof -
  have "nat \<bar>i\<bar> < 2 ^ 53" using assms by (simp add: nat_less_iff)
  then have "bit_length (nat \<bar>i\<bar>) - 53 = 0"
    using bit_length_le[of "nat \<bar>i\<bar>" 53] by simp
  moreover have "real_of_int (sgn i) * \<bar>real_of_int i\<bar> = real_of_int i"
    by (cases "i < 0"; cases "i = 0") (auto simp: sgn_if)
  ultimately show ?thesis
    by (simp add: float64_of_int_def Let_def)
qed


lemma float_exact_power: "k < 1024 \<Longrightarrow> float_exact 8 (- (2 ^ k))"
proof -
  assume k: "k < 1024"
  have "nat \<bar>- (2 ^ k) :: int\<bar> = 2 ^ k"
    by (simp add: nat_power_eq)
  moreover have "nat (2 ^ k :: int) = 2 ^ k"
    by (simp add: nat_power_eq)
  ultimately show ?thesis using k
    by (simp add: float_exact_def Let_def nat_power_eq bit_length_power le_imp_power_dvd
        mod_eq_0_iff_dvd)
qed

lemma float_exact_min64: "float_exact 8 (- 9223372036854775808)"
  using float_exact_power [of 63] by simp

lemma float_exact_min32: "float_exact 8 (- 2147483648)"
  using float_exact_power [of 31] by simp


lemma step_eq:
  "build_input_columnar_step U df st col =
     ebind (getitem df col) (\<lambda>data.
     ebind (get_mapd_dtype data) (\<lambda>mapd_type.
     ebind (column_payload U data mapd_type) (\<lambda>cd.
       (case nulls (column_mask df data st) of
          None \<Rightarrow> Inl UnboundLocalError
        | Some n \<Rightarrow>
            Inr ((column_mask df data st)\<lparr>input_cols :=
                   input_cols (column_mask df data st) @ [\<lparr>tc_data = cd, tc_nulls = n\<rparr>]\<rparr>)))))"
  unfolding build_input_columnar_step_def column_payload_def column_mask_def Let_def ebind_assoc
  by (intro arg_cong2[where f=ebind] refl ext) (auto split: option.splits)

lemma emap_append:
  "emap f (xs @ ys) = ebind (emap f xs) (\<lambda>a. ebind (emap f ys) (\<lambda>b. Inr (a @ b)))"
  by (induction xs) (simp_all add: ebind_def split: sum.splits)

lemma loop_append:
  "build_input_columnar_loop U df (xs @ ys) st =
     ebind (build_input_columnar_loop U df xs st) (build_input_columnar_loop U df ys)"
  by (induction xs arbitrary: st) (simp_all add: ebind_def split: sum.splits)

lemma getitem_distinct:
  assumes "distinct (map fst (df_columns df))" and "(n, s) \<in> set (df_columns df)"
  shows "getitem df n = Inr s"
proof -
  have "distinct (map fst cs) \<Longrightarrow> (n, s) \<in> set cs \<Longrightarrow> filter (\<lambda>c. fst c = n) cs = [(n, s)]" for cs
  proof (induction cs)
    case Nil
    then show ?case by simp
  next
    case (Cons c cs)
    then show ?case
      by (cases "c = (n, s)") (auto simp: filter_empty_conv rev_image_eqI)
  qed
  then show ?thesis using assms by (simp add: getitem_def)
qed

lemma resolver_range:
  "get_mapd_dtype data = Inr t \<Longrightarrow>
     t \<in> {''BOOL'', ''TINYINT'', ''SMALLINT'', ''INT'', ''BIGINT'', ''FLOAT'', ''DOUBLE'',
          ''TIMESTAMP'', ''STR'', ''DATE'', ''TIME''}"
  unfolding get_mapd_dtype_def get_mapd_type_from_known_def get_mapd_type_from_object_def
  by (fastforce split: if_splits sum.splits)



lemma column_mask_cols: "input_cols (column_mask df data st) = input_cols st"
  by (simp add: column_mask_def)



lemmas eval_defs =
  build_input_columnar_def build_input_columnar_step_def columns_def getitem_def
  get_mapd_dtype_def get_mapd_type_from_known_def get_mapd_type_from_object_def
  is_object_dtype_def is_bool_dtype_def is_integer_dtype_def is_float_dtype_def
  is_datetime64_any_dtype_def int64_def object_dtype_def float64_def bool_dtype_def
  uint64_def datetime64_def hasnans_def isnull_values_def
  len_def dropna_def iloc0_def fillna_def TColumnData_kw_def spec_utils_def
  astype_int64_def in_int64_def in_uint64_def thrift_cast_def Series_def
  float64_of_int_small float_exact_min64 float_exact_min32
  parse_int_def py_space_def py_digit_def

lemmas example_defs =
  stale_mask_table_def nullable_table_def nullable_ints_def nullable_dates_def
  int_column_def init_state_def timestamp_table_def timestamp_column_def mixed_table_def
  mixed_ints_def

lemma step_payload:
  assumes "getitem df col = Inr data" and "get_mapd_dtype data = Inr t"
    and "build_input_columnar_step U df st col = Inr st'"
  shows "column_payload U data t = Inr (tc_data (last (input_cols st')))"
  using assms
  by (cases "column_payload U data t")
     (auto simp: step_eq split: option.splits)

lemma step_returns:
  assumes "getitem df col = Inr data" and "get_mapd_dtype data = Inr t"
    and "column_payload U data t = Inr cd" and "hasnans data \<or> nulls_bound st"
  shows "\<exists>st'. build_input_columnar_step U df st col = Inr st' \<and>
               tc_data (last (input_cols st')) = cd"
proof -
  have "\<exists>n. nulls (column_mask df data st) = Some n"
    using assms(4) by (auto simp: column_mask_def nulls_bound_def)
  then show ?thesis using assms(1-3) by (auto simp: step_eq)
qed

lemma payload_plain:
  assumes "t \<notin> {''TIME'', ''TIMESTAMP'', ''DATE''}" and "\<not> hasnans data"
  shows "column_payload U data t =
     (case mapd_to_slot U t of None \<Rightarrow> Inl KeyError | Some slot \<Rightarrow> TColumnData_kw slot data)"
  using assms unfolding column_payload_def by (simp split: option.split)

lemma payload_plain_Inr:
  assumes "t \<notin> {''TIME'', ''TIMESTAMP'', ''DATE''}" and "\<not> hasnans data"
    and "column_payload U data t = Inr cd"
  shows "\<exists>slot. mapd_to_slot U t = Some slot \<and> TColumnData_kw slot data = Inr cd"
  using assms(3) unfolding payload_plain[OF assms(1,2)]
  by (cases "mapd_to_slot U t") simp_all

lemma emap_Inr_iff:
  "emap f xs = Inr ys \<longleftrightarrow> list_all2 (\<lambda>x y. f x = Inr y) xs ys"
proof (induction xs arbitrary: ys)
  case Nil
  then show ?case by auto
next
  case (Cons x xs)
  show ?case
    by (cases ys) (auto simp: ebind_Inr_iff Cons.IH)
qed


lemma emap_first_error:
  assumes "emap f xs = Inr ys" and "f x = Inl e"
  shows "emap f (xs @ x # zs) = Inl e"
  using assms by (simp add: emap_append)

lemma emap_all_Inr:
  "(\<And>x. x \<in> set xs \<Longrightarrow> \<exists>y. f x = Inr y) \<Longrightarrow> \<exists>ys. emap f xs = Inr ys"
proof (induction xs)
  case Nil
  then show ?case by simp
next
  case (Cons x xs)
  then obtain y ys where "f x = Inr y" "emap f xs = Inr ys"
    by (meson list.set_intros)
  then show ?case by simp
qed

lemma reset_index_Inr:
  assumes "reset_index df0 = Inr df"
  shows "\<exists>name. name \<notin> set (columns df0) \<and>
           df_columns df = (name, df_index df0) # df_columns df0 \<and> len df = len df0"
  using assms unfolding reset_index_def Let_def
  by (auto simp: len_def split: if_splits)

lemma prepared_columns:
  assumes "(if preserve_index then reset_index df0 else Inr df0) = Inr df"
    and "distinct (columns df0)"
  shows "distinct (columns df)"
proof (cases preserve_index)
  case True
  with assms(1) reset_index_Inr[of df0 df] obtain name where
    "name \<notin> set (columns df0)" "df_columns df = (name, df_index df0) # df_columns df0"
    by auto
  then show ?thesis using assms(2) by (simp add: columns_def)
next
  case False
  then show ?thesis using assms by simp
qed

lemma getitem_mid:
  assumes "distinct (columns df)" and "df_columns df = pre @ (col, data) # post"
  shows "getitem df col = Inr data"
  using assms getitem_distinct[of df col data] by (simp add: columns_def)

lemma getitem_pre:
  assumes "distinct (columns df)" and "df_columns df = pre @ rest" and "c \<in> set pre"
  shows "getitem df (fst c) = Inr (snd c)"
  using assms getitem_distinct[of df "fst c" "snd c"] by (simp add: columns_def)

lemma step_resolver_error:
  assumes "getitem df col = Inr data" and "get_mapd_dtype data = Inl e"
  shows "build_input_columnar_step U df st col = Inl e"
  using assms by (simp add: step_eq)








lemma encoder_plain:
  "build_input_columnar U df False =
     ebind (build_input_columnar_loop U df (columns df) init_state) (\<lambda>st. Inr (input_cols st))"
  by (simp add: build_input_columnar_def init_state_def)










lemma step_mask:
  assumes "getitem df col = Inr data"
    and "build_input_columnar_step U df st col = Inr st'"
  shows "\<exists>cd n. nulls (column_mask df data st) = Some n \<and>
           st' = (column_mask df data st)\<lparr>input_cols :=
                   input_cols st @ [\<lparr>tc_data = cd, tc_nulls = n\<rparr>]\<rparr>"
  using assms(2) unfolding step_eq assms(1) ebind_simps
  by (auto simp: ebind_Inr_iff column_mask_cols split: option.splits)


lemma fillna_Inr:
  assumes "fillna d na = Inr f"
  shows "na \<noteq> PyNone \<and> length (s_items f) = length (s_items d) \<and>
     (\<forall>i < length (s_items d).
        s_items f ! i =
          (if isnull (s_items d ! i)
           then (if is_float_dtype (s_dtype d) \<and> float_fill (itemsize (s_dtype d)) na
                 then as_float na else na)
           else s_items d ! i)) \<and>
     (kind (s_dtype f) = KFloat \<longrightarrow> is_float_dtype (s_dtype d)) \<and>
     (hasnans d \<and> kind (s_dtype f) = KFloat \<longrightarrow> float_fill (itemsize (s_dtype d)) na)"
proof (cases "hasnans d")
  case False
  then have "\<forall>i < length (s_items d). \<not> isnull (s_items d ! i)"
    by (auto simp: hasnans_def list_ex_iff)
  with False assms show ?thesis
    by (auto simp: fillna_def is_float_dtype_def split: if_splits)
next
  case True
  with assms show ?thesis
    by (auto simp: fillna_def is_float_dtype_def object_dtype_def split: if_splits)
qed

lemma wrap64_id:
  assumes "in_int64 n"
  shows "(n + 2 ^ 63) mod 2 ^ 64 - 2 ^ 63 = n"
proof -
  from assms have "0 \<le> n + 2 ^ 63" "n + 2 ^ 63 < 2 ^ 64"
    by (simp_all add: in_int64_def)
  then have "(n + 2 ^ 63) mod 2 ^ 64 = n + 2 ^ 63" by simp
  then show ?thesis by simp
qed

lemma wrap64_range: "in_int64 ((n + 2 ^ 63) mod 2 ^ 64 - 2 ^ 63)"
proof -
  define x where "x = (n + 2 ^ 63) mod (2 ^ 64 :: int)"
  have "0 \<le> x" "x < 2 ^ 64"
    by (simp_all add: x_def)
  then have "in_int64 (x - 2 ^ 63)" by (simp add: in_int64_def)
  then show ?thesis by (simp add: x_def)
qed

lemma to_int64_value: "to_int64 v = Inr w \<Longrightarrow> int64_value w"
  by (cases v) (auto simp: in_int64_def split: if_splits option.splits)

lemma element_to_int64_value: "element_to_int64 k v = Inr w \<Longrightarrow> int64_value w"
proof (induction k v rule: element_to_int64.induct)
  case (1 r)
  then show ?case by (auto simp: in_int64_def split: if_splits)
next
  case 2
  then show ?case by simp
next
  case (3 i)
  then show ?case using wrap64_range[of i] by auto
next
  case (4 t)
  then show ?case using wrap64_range[of t] by auto
qed (auto simp del: to_int64.simps dest: to_int64_value)

lemma element_to_int64_int:
  "in_int64 n \<Longrightarrow> element_to_int64 k (PyInt n) = Inr (PyInt n)"
  using wrap64_id [of n] by (cases k) simp_all

lemma element_to_int64_bool:
  "element_to_int64 k (PyBool b) = Inr (PyInt (if b then 1 else 0))"
  by (cases k) simp_all

lemma element_to_int64_float:
  "in_int64 (trunc x) \<Longrightarrow> element_to_int64 k (PyFloat x) = Inr (PyInt (trunc x))"
  by (cases k) simp_all

lemma element_to_int64_str:
  "element_to_int64 k (PyStr s) =
     (case parse_int s of
        None \<Rightarrow> Inl ValueError
      | Some i \<Rightarrow> if in_int64 i then Inr (PyInt i) else Inl OverflowError)"
  by (cases k) simp_all

lemma astype_int64_Inr:
  assumes "astype_int64 f = Inr buf"
  shows "s_dtype buf = int64 \<and> length (s_items buf) = length (s_items f) \<and>
     (\<forall>i < length (s_items f).
        element_to_int64 (kind (s_dtype f)) (s_items f ! i) = Inr (s_items buf ! i))"
  using assms
  by (auto simp: astype_int64_def ebind_Inr_iff emap_Inr_iff list_all2_conv_all_nth)

lemma payload_nulls:
  assumes "hasnans data"
  shows "column_payload U data t =
     ebind (if t \<in> {''TIME'', ''TIMESTAMP'', ''DATE''}
            then thrift_cast U data t else Inr (Some data)) (\<lambda>data1.
     case data1 of None \<Rightarrow> Inl AttributeError
     | Some d \<Rightarrow>
        (case mapd_to_na U t of None \<Rightarrow> Inl KeyError
         | Some na \<Rightarrow>
            ebind (fillna d na) (\<lambda>d1.
            ebind (if t \<notin> {''FLOAT'', ''DOUBLE'', ''VARCHAR'', ''STR''}
                   then astype_int64 d1 else Inr d1) (\<lambda>d2.
            case mapd_to_slot U t of None \<Rightarrow> Inl KeyError
            | Some slot \<Rightarrow> TColumnData_kw slot d2))))"
proof -
  have *: "ebind (if c then ebind m (\<lambda>d'. Inr (Some d')) else Inr (Some y)) f =
        ebind (if c then m else Inr y) (\<lambda>d2. f (Some d2))" for c m y
     and f :: "series option \<Rightarrow> error + TColumnData"
    by (cases c; cases m) simp_all
  show ?thesis
    unfolding column_payload_def if_P[OF assms]
    apply (intro arg_cong2[where f=ebind] refl ext)
    subgoal for data1
      apply (cases data1; simp only: option.case ebind_simps)
      apply (cases "mapd_to_na U t"; simp only: option.case ebind_simps)
      apply (simp only: ebind_assoc *)
      apply (intro arg_cong2[where f=ebind] refl ext)
      apply (simp only: option.case)
      done
    done
qed

lemma payload_nulls_Inr:
  assumes "hasnans data" and "column_payload U data t = Inr cd"
  shows "\<exists>d na f d2 slot.
      (if t \<in> {''TIME'', ''TIMESTAMP'', ''DATE''}
       then thrift_cast U data t else Inr (Some data)) = Inr (Some d) \<and>
      mapd_to_na U t = Some na \<and> fillna d na = Inr f \<and>
      (if t \<notin> {''FLOAT'', ''DOUBLE'', ''VARCHAR'', ''STR''}
       then astype_int64 f else Inr f) = Inr d2 \<and>
      mapd_to_slot U t = Some slot \<and> TColumnData_kw slot d2 = Inr cd"
proof -
  let ?c = "if t \<in> {''TIME'', ''TIMESTAMP'', ''DATE''}
       then thrift_cast U data t else Inr (Some data)"
  let ?a = "\<lambda>f. if t \<notin> {''FLOAT'', ''DOUBLE'', ''VARCHAR'', ''STR''}
       then astype_int64 f else Inr f"
  from assms obtain data1 where c: "?c = Inr data1"
    and r1: "(case data1 of None \<Rightarrow> Inl AttributeError
     | Some d \<Rightarrow>
        (case mapd_to_na U t of None \<Rightarrow> Inl KeyError
         | Some na \<Rightarrow>
            ebind (fillna d na) (\<lambda>d1. ebind (?a d1) (\<lambda>d2.
            case mapd_to_slot U t of None \<Rightarrow> Inl KeyError
            | Some slot \<Rightarrow> TColumnData_kw slot d2)))) = Inr cd"
    unfolding payload_nulls[OF assms(1)] ebind_Inr_iff by blast
  from r1 obtain d where d: "data1 = Some d" by (cases data1) simp_all
  from r1 d obtain na where na: "mapd_to_na U t = Some na"
    by (cases "mapd_to_na U t") simp_all
  from r1 d na obtain f d2 where f: "fillna d na = Inr f" and d2: "?a f = Inr d2"
    and r2: "(case mapd_to_slot U t of None \<Rightarrow> Inl KeyError
            | Some slot \<Rightarrow> TColumnData_kw slot d2) = Inr cd"
    by (simp only: option.case ebind_Inr_iff) blast
  from r2 obtain slot where s: "mapd_to_slot U t = Some slot" "TColumnData_kw slot d2 = Inr cd"
    by (cases "mapd_to_slot U t") simp_all
  show ?thesis using c d na f d2 s by blast
qed

lemma payload_nulls_returns:
  assumes "hasnans data"
    and "(if t \<in> {''TIME'', ''TIMESTAMP'', ''DATE''}
       then thrift_cast U data t else Inr (Some data)) = Inr (Some d)"
    and "mapd_to_na U t = Some na" and "fillna d na = Inr f"
    and "(if t \<notin> {''FLOAT'', ''DOUBLE'', ''VARCHAR'', ''STR''}
       then astype_int64 f else Inr f) = Inr d2"
    and "mapd_to_slot U t = Some slot" and "TColumnData_kw slot d2 = Inr cd"
  shows "column_payload U data t = Inr cd"
  unfolding payload_nulls[OF assms(1)] assms(2) ebind_simps option.case assms(3) assms(4)
    assms(5) assms(6) assms(7) ..



lemma element_to_int64_convertible:
  "int64_convertible v \<Longrightarrow> \<exists>w. element_to_int64 k v = Inr w"
  by (cases v)
     (auto simp: element_to_int64_int element_to_int64_bool element_to_int64_float
        element_to_int64_str split: option.splits)

lemma astype_int64_returns:
  assumes "list_all int64_convertible (s_items f)"
  shows "\<exists>buf. astype_int64 f = Inr buf"
proof -
  have "\<exists>ys. emap (element_to_int64 (kind (s_dtype f))) (s_items f) = Inr ys"
    using assms element_to_int64_convertible
    by (intro emap_all_Inr) (auto simp: list_all_iff)
  then show ?thesis by (auto simp: astype_int64_def)
qed



lemma TColumnData_kw_returns:
  "slot \<in> {''int_col'', ''real_col'', ''str_col'', ''arr_col''} \<Longrightarrow>
     \<exists>cd. TColumnData_kw slot v = Inr cd"
  by (auto simp: TColumnData_kw_def)

section \<open>Properties of the type resolver\<close>

lemma first_valid_iloc0:
  assumes "s_items data = pre @ v # post" and "list_all isnull pre" and "\<not> isnull v"
  shows "iloc0 (dropna data) = Inr v"
proof -
  have "filter (\<lambda>x. \<not> isnull x) pre = []"
    using assms(2) by (induction pre) auto
  then show ?thesis
    using assms(1,3) by (simp add: iloc0_def dropna_def)
qed

lemma all_missing_iloc0:
  assumes "list_all isnull (s_items data)"
  shows "iloc0 (dropna data) = Inl IndexError"
proof -
  have "filter (\<lambda>x. \<not> isnull x) (s_items data) = []"
    using assms by (induction "s_items data") (auto simp: list_all_iff)
  then show ?thesis
    by (simp add: iloc0_def dropna_def)
qed

text \<open>
  C2. A column whose dtype is not object is resolved from the dtype alone: a boolean dtype
  gives BOOL; an integer dtype gives TINYINT for a width of at most 1 byte, SMALLINT for
  width 2, INT for width 4 and BIGINT for a width above 4; a float dtype gives FLOAT for a
  width of at most 4 and DOUBLE above; a datetime dtype gives TIMESTAMP; every other dtype
  is a TypeError.
\<close>

theorem resolve_known_dtype:
  "(is_bool_dtype (s_dtype data) \<longrightarrow> get_mapd_dtype data = Inr ''BOOL'') \<and>
   (is_integer_dtype (s_dtype data) \<and> itemsize (s_dtype data) \<le> 1 \<longrightarrow>
      get_mapd_dtype data = Inr ''TINYINT'') \<and>
   (is_integer_dtype (s_dtype data) \<and> itemsize (s_dtype data) = 2 \<longrightarrow>
      get_mapd_dtype data = Inr ''SMALLINT'') \<and>
   (is_integer_dtype (s_dtype data) \<and> itemsize (s_dtype data) = 4 \<longrightarrow>
      get_mapd_dtype data = Inr ''INT'') \<and>
   (is_integer_dtype (s_dtype data) \<and> itemsize (s_dtype data) > 4 \<longrightarrow>
      get_mapd_dtype data = Inr ''BIGINT'') \<and>
   (is_float_dtype (s_dtype data) \<and> itemsize (s_dtype data) \<le> 4 \<longrightarrow>
      get_mapd_dtype data = Inr ''FLOAT'') \<and>
   (is_float_dtype (s_dtype data) \<and> itemsize (s_dtype data) > 4 \<longrightarrow>
      get_mapd_dtype data = Inr ''DOUBLE'') \<and>
   (is_datetime64_any_dtype (s_dtype data) \<longrightarrow> get_mapd_dtype data = Inr ''TIMESTAMP'') \<and>
   (\<not> is_object_dtype (s_dtype data) \<and> \<not> is_bool_dtype (s_dtype data) \<and>
    \<not> is_integer_dtype (s_dtype data) \<and> \<not> is_float_dtype (s_dtype data) \<and>
    \<not> is_datetime64_any_dtype (s_dtype data) \<longrightarrow>
      get_mapd_dtype data = Inl TypeError) \<and>
   (\<not> is_object_dtype (s_dtype data) \<longrightarrow>
      get_mapd_dtype data = get_mapd_type_from_known (s_dtype data))"
  by (auto simp: get_mapd_dtype_def get_mapd_type_from_known_def is_bool_dtype_def
      is_integer_dtype_def is_float_dtype_def is_datetime64_any_dtype_def is_object_dtype_def)

theorem resolve_known_dtype_witness:
  "get_mapd_dtype \<lparr>s_dtype = \<lparr>kind = KBool, itemsize = 1\<rparr>, s_items = [PyBool True]\<rparr>
     = Inr ''BOOL'' \<and>
   get_mapd_dtype \<lparr>s_dtype = \<lparr>kind = KInt, itemsize = 1\<rparr>, s_items = [PyInt 1]\<rparr>
     = Inr ''TINYINT'' \<and>
   get_mapd_dtype \<lparr>s_dtype = \<lparr>kind = KInt, itemsize = 2\<rparr>, s_items = [PyInt 1]\<rparr>
     = Inr ''SMALLINT'' \<and>
   get_mapd_dtype \<lparr>s_dtype = \<lparr>kind = KUInt, itemsize = 4\<rparr>, s_items = [PyInt 1]\<rparr>
     = Inr ''INT'' \<and>
   get_mapd_dtype \<lparr>s_dtype = \<lparr>kind = KInt, itemsize = 8\<rparr>, s_items = [PyInt 1]\<rparr>
     = Inr ''BIGINT'' \<and>
   get_mapd_dtype \<lparr>s_dtype = \<lparr>kind = KFloat, itemsize = 4\<rparr>, s_items = [PyFloat 1]\<rparr>
     = Inr ''FLOAT'' \<and>
   get_mapd_dtype \<lparr>s_dtype = \<lparr>kind = KFloat, itemsize = 8\<rparr>, s_items = [PyFloat 1]\<rparr>
     = Inr ''DOUBLE'' \<and>
   get_mapd_dtype \<lparr>s_dtype = \<lparr>kind = KDatetime, itemsize = 8\<rparr>, s_items = [PyDatetime 0]\<rparr>
     = Inr ''TIMESTAMP'' \<and>
   get_mapd_dtype \<lparr>s_dtype = \<lparr>kind = KComplex, itemsize = 16\<rparr>, s_items = [PyOther 0]\<rparr>
     = Inl TypeError"
  using
    resolve_known_dtype [of "\<lparr>s_dtype = \<lparr>kind = KBool, itemsize = 1\<rparr>, s_items = [PyBool True]\<rparr>"]
    resolve_known_dtype [of "\<lparr>s_dtype = \<lparr>kind = KInt, itemsize = 1\<rparr>, s_items = [PyInt 1]\<rparr>"]
    resolve_known_dtype [of "\<lparr>s_dtype = \<lparr>kind = KInt, itemsize = 2\<rparr>, s_items = [PyInt 1]\<rparr>"]
    resolve_known_dtype [of "\<lparr>s_dtype = \<lparr>kind = KUInt, itemsize = 4\<rparr>, s_items = [PyInt 1]\<rparr>"]
    resolve_known_dtype [of "\<lparr>s_dtype = \<lparr>kind = KInt, itemsize = 8\<rparr>, s_items = [PyInt 1]\<rparr>"]
    resolve_known_dtype [of "\<lparr>s_dtype = \<lparr>kind = KFloat, itemsize = 4\<rparr>, s_items = [PyFloat 1]\<rparr>"]
    resolve_known_dtype [of "\<lparr>s_dtype = \<lparr>kind = KFloat, itemsize = 8\<rparr>, s_items = [PyFloat 1]\<rparr>"]
    resolve_known_dtype [of "\<lparr>s_dtype = \<lparr>kind = KDatetime, itemsize = 8\<rparr>, s_items = [PyDatetime 0]\<rparr>"]
    resolve_known_dtype [of "\<lparr>s_dtype = \<lparr>kind = KComplex, itemsize = 16\<rparr>, s_items = [PyOther 0]\<rparr>"]
  by (simp add: is_bool_dtype_def is_integer_dtype_def is_float_dtype_def
      is_datetime64_any_dtype_def is_object_dtype_def)

text \<open>
  C3, as the claim states it, fails: a full datetime is no string, no date-only value, no
  time-only value and no integer, and yet the resolver does not raise a TypeError on an
  object column whose first non-missing value is one. It answers DATE.
\<close>

theorem object_sample_counterexample:
  "get_mapd_dtype datetime_first_column \<noteq> Inl TypeError \<and>
   get_mapd_dtype datetime_first_column = Inr ''DATE''"
  by (simp add: datetime_first_column_def get_mapd_dtype_def get_mapd_type_from_object_def
      is_object_dtype_def object_dtype_def dropna_def iloc0_def)

text \<open>
  C3, amended. For an object column with a non-missing value, the result is a function of
  the first non-missing value \<open>v\<close> alone, whatever precedes it (missing markers) and
  whatever follows it: a string gives STR; a date or a datetime gives DATE; a time gives
  TIME; an integer or a boolean gives INT; any other value is a TypeError.
\<close>

theorem object_sample_first_valid:
  assumes "is_object_dtype (s_dtype data)"
    and "s_items data = pre @ v # post"
    and "list_all isnull pre"
    and "\<not> isnull v"
  shows "get_mapd_dtype data =
     (case v of
        PyStr s \<Rightarrow> Inr ''STR''
      | PyDate d \<Rightarrow> Inr ''DATE''
      | PyDatetime t \<Rightarrow> Inr ''DATE''
      | PyTime t \<Rightarrow> Inr ''TIME''
      | PyInt i \<Rightarrow> Inr ''INT''
      | PyBool b \<Rightarrow> Inr ''INT''
      | _ \<Rightarrow> Inl TypeError)"
  using assms(1) first_valid_iloc0 [OF assms(2,3,4)]
  by (cases v) (simp_all add: get_mapd_dtype_def get_mapd_type_from_object_def)

theorem object_sample_first_valid_witness:
  "get_mapd_dtype \<lparr>s_dtype = object_dtype, s_items = [PyNaN, PyStr ''a'', PyInt 3]\<rparr>
     = Inr ''STR'' \<and>
   get_mapd_dtype \<lparr>s_dtype = object_dtype, s_items = [PyNone, PyBool True, PyStr ''a'']\<rparr>
     = Inr ''INT'' \<and>
   get_mapd_dtype \<lparr>s_dtype = object_dtype, s_items = [PyFloat 1, PyStr ''a'']\<rparr>
     = Inl TypeError"
  using
    object_sample_first_valid [of "\<lparr>s_dtype = object_dtype, s_items = [PyNaN, PyStr ''a'', PyInt 3]\<rparr>"
      "[PyNaN]" "PyStr ''a''" "[PyInt 3]"]
    object_sample_first_valid [of "\<lparr>s_dtype = object_dtype, s_items = [PyNone, PyBool True, PyStr ''a'']\<rparr>"
      "[PyNone]" "PyBool True" "[PyStr ''a'']"]
    object_sample_first_valid [of "\<lparr>s_dtype = object_dtype, s_items = [PyFloat 1, PyStr ''a'']\<rparr>"
      "[]" "PyFloat 1" "[PyStr ''a'']"]
  by (simp add: is_object_dtype_def object_dtype_def)

text \<open>
  C10. An object column whose first non-missing value is a full datetime resolves to DATE,
  and so not to TIMESTAMP: a datetime is an instance of the date class, which is tested
  before the time class, and the object path has no branch for datetimes.
\<close>

theorem object_datetime_is_date:
  assumes "is_object_dtype (s_dtype data)"
    and "s_items data = pre @ PyDatetime t # post"
    and "list_all isnull pre"
  shows "get_mapd_dtype data = Inr ''DATE'' \<and> get_mapd_dtype data \<noteq> Inr ''TIMESTAMP''"
  using assms(1) first_valid_iloc0 [OF assms(2,3)]
  by (simp add: get_mapd_dtype_def get_mapd_type_from_object_def)

theorem object_datetime_is_date_witness:
  "get_mapd_dtype \<lparr>s_dtype = object_dtype, s_items = [PyNaT, PyDatetime 5, PyTime 7]\<rparr>
     = Inr ''DATE'' \<and>
   get_mapd_dtype \<lparr>s_dtype = object_dtype, s_items = [PyNaT, PyDatetime 5, PyTime 7]\<rparr>
     \<noteq> Inr ''TIMESTAMP''"
  using object_datetime_is_date [of
      "\<lparr>s_dtype = object_dtype, s_items = [PyNaT, PyDatetime 5, PyTime 7]\<rparr>"
      "[PyNaT]" 5 "[PyTime 7]"]
  by (simp add: is_object_dtype_def object_dtype_def)

text \<open>
  C4. An object column in which every value is missing makes the resolver fail with an
  IndexError, and the encoder and the schema describer fail with the same IndexError: for a
  table (after the optional \<^verbatim>\<open>reset_index\<close>) with distinct labels that holds such a
  column, the encoder fails with it once its loop has run through the columns before, and
  the describer fails with it when the columns before resolve.
\<close>

theorem all_missing_index_error:
  assumes "is_object_dtype (s_dtype data)" and "list_all isnull (s_items data)"
  shows "get_mapd_dtype data = Inl IndexError \<and>
    ((if preserve_index then reset_index df0 else Inr df0) = Inr df \<and>
     distinct (columns df0) \<and> df_columns df = pre @ (col, data) # post \<longrightarrow>
       (build_input_columnar_loop U df (map fst pre)
          \<lparr>input_cols = [], all_nulls = None, nulls = None\<rparr> = Inr st \<longrightarrow>
        build_input_columnar U df0 preserve_index = Inl IndexError) \<and>
       ((\<forall>c \<in> set pre. \<exists>t. get_mapd_dtype (snd c) = Inr t) \<longrightarrow>
        build_row_desc U True (DataFrame df0) preserve_index = Inl IndexError))"
proof -
  have r: "get_mapd_dtype data = Inl IndexError"
    using assms(1) all_missing_iloc0[OF assms(2)]
    by (simp add: get_mapd_dtype_def get_mapd_type_from_object_def)
  {
    assume p: "(if preserve_index then reset_index df0 else Inr df0) = Inr df"
      and d0: "distinct (columns df0)"
      and c: "df_columns df = pre @ (col, data) # post"
    have d: "distinct (columns df)" using prepared_columns[OF p d0] .
    have g: "getitem df col = Inr data" using getitem_mid[OF d c] .
    have cols: "columns df = map fst pre @ col # map fst post"
      using c by (simp add: columns_def)
    have enc: "build_input_columnar U df0 preserve_index = Inl IndexError"
      if l: "build_input_columnar_loop U df (map fst pre)
          \<lparr>input_cols = [], all_nulls = None, nulls = None\<rparr> = Inr st"
    proof -
      have "build_input_columnar_loop U df (columns df)
          \<lparr>input_cols = [], all_nulls = None, nulls = None\<rparr> = Inl IndexError"
        unfolding cols loop_append l
        by (simp add: step_resolver_error[OF g r])
      then show ?thesis
        unfolding build_input_columnar_def p by simp
    qed
    let ?f = "\<lambda>col. ebind (getitem df col) (\<lambda>s. ebind (get_mapd_dtype s) (\<lambda>t. Inr (col, t)))"
    have desc: "build_row_desc U True (DataFrame df0) preserve_index = Inl IndexError"
      if a: "\<forall>c \<in> set pre. \<exists>t. get_mapd_dtype (snd c) = Inr t"
    proof -
      have "\<exists>y. ?f x = Inr y" if "x \<in> set (map fst pre)" for x
      proof -
        from that obtain c where cin: "c \<in> set pre" and x: "x = fst c" by auto
        from a cin obtain t where "get_mapd_dtype (snd c) = Inr t" by blast
        then show ?thesis using getitem_pre[OF d c cin] x by simp
      qed
      then obtain ys where ys: "emap ?f (map fst pre) = Inr ys"
        using emap_all_Inr[of "map fst pre" ?f] by blast
      have "?f col = Inl IndexError" using g r by simp
      then have "emap ?f (columns df) = Inl IndexError"
        unfolding cols using emap_first_error[OF ys] by blast
      then show ?thesis
        unfolding build_row_desc_def by (simp add: p)
    qed
    note enc desc
  }
  then show ?thesis using r by blast
qed

theorem all_missing_index_error_witness:
  "get_mapd_dtype all_missing_column = Inl IndexError \<and>
   build_input_columnar spec_utils all_missing_table False = Inl IndexError \<and>
   build_row_desc spec_utils True (DataFrame all_missing_table) False = Inl IndexError"
proof -
  have h1: "is_object_dtype (s_dtype all_missing_column)"
    by (simp add: all_missing_column_def is_object_dtype_def object_dtype_def)
  have h2: "list_all isnull (s_items all_missing_column)"
    by (simp add: all_missing_column_def)
  have p: "(if False then reset_index all_missing_table else Inr all_missing_table)
      = Inr all_missing_table" by simp
  have d: "distinct (columns all_missing_table)"
    by (simp add: columns_def all_missing_table_def)
  have c: "df_columns all_missing_table =
      [(''a'', int_column)] @ (''m'', all_missing_column) # []"
    by (simp add: all_missing_table_def)
  have "\<exists>st. build_input_columnar_loop spec_utils all_missing_table (map fst [(''a'', int_column)])
          \<lparr>input_cols = [], all_nulls = None, nulls = None\<rparr> = Inr st"
    by (simp add: all_missing_table_def int_column_def eval_defs)
  then obtain st where l: "build_input_columnar_loop spec_utils all_missing_table
      (map fst [(''a'', int_column)]) \<lparr>input_cols = [], all_nulls = None, nulls = None\<rparr> = Inr st" ..
  have a: "\<forall>c \<in> set [(''a'', int_column)]. \<exists>t. get_mapd_dtype (snd c) = Inr t"
    by (simp add: int_column_def eval_defs)
  from all_missing_index_error [OF h1 h2, of False all_missing_table all_missing_table
      "[(''a'', int_column)]" "''m''" "[]" spec_utils st] p d c l a
  show ?thesis by blast
qed

section \<open>Properties of the normalization and of the encoder\<close>

text \<open>
  C1. The claim asks that a column without missing values gets an all-false mask whatever
  columns come before it. The loop assigns \<^verbatim>\<open>nulls\<close> only when the column has missing
  values or when \<^verbatim>\<open>all_nulls\<close> is still unset; for a later column without missing values
  the variable keeps the mask of the column before. On the table \<open>stale_mask_table\<close> the
  third column has no missing value, and whatever the imported helpers and tables are,
  every result of the encoder emits it with the mask of the second column.
\<close>


theorem stale_mask_emitted:
  assumes "build_input_columnar U stale_mask_table False = Inr outs"
  shows "getitem stale_mask_table ''c'' = Inr \<lparr>s_dtype = int64, s_items = [PyInt 3, PyInt 4]\<rparr> \<and>
     isnull_values \<lparr>s_dtype = int64, s_items = [PyInt 3, PyInt 4]\<rparr> = [False, False] \<and>
     map tc_nulls outs = [[False, False], [False, True], [False, True]]"
proof -
  let ?T = stale_mask_table
  let ?a = "\<lparr>s_dtype = int64, s_items = [PyInt 1, PyInt 2]\<rparr>"
  let ?b = "\<lparr>s_dtype = object_dtype, s_items = [PyStr ''x'', PyNone]\<rparr>"
  let ?c = "\<lparr>s_dtype = int64, s_items = [PyInt 3, PyInt 4]\<rparr>"
  have ga: "getitem ?T ''a'' = Inr ?a" and gb: "getitem ?T ''b'' = Inr ?b"
    and gc: "getitem ?T ''c'' = Inr ?c"
    by (simp_all add: getitem_def stale_mask_table_def)
  have cols: "columns ?T = [''a'', ''b'', ''c'']"
    by (simp add: columns_def stale_mask_table_def)
  from assms obtain s1 s2 s3 where
    1: "build_input_columnar_step U ?T init_state ''a'' = Inr s1"
    and 2: "build_input_columnar_step U ?T s1 ''b'' = Inr s2"
    and 3: "build_input_columnar_step U ?T s2 ''c'' = Inr s3"
    and o: "outs = input_cols s3"
    unfolding encoder_plain cols by (auto simp: ebind_Inr_iff)
  from step_mask[OF ga 1] obtain cd1 where
    s1: "s1 = \<lparr>input_cols = [\<lparr>tc_data = cd1, tc_nulls = [False, False]\<rparr>],
              all_nulls = Some [False, False], nulls = Some [False, False]\<rparr>"
    by (auto simp: column_mask_def hasnans_def init_state_def len_def stale_mask_table_def)
  from step_mask[OF gb 2] obtain cd2 where
    s2: "s2 = \<lparr>input_cols = [\<lparr>tc_data = cd1, tc_nulls = [False, False]\<rparr>,
                            \<lparr>tc_data = cd2, tc_nulls = [False, True]\<rparr>],
              all_nulls = Some [False, False], nulls = Some [False, True]\<rparr>"
    unfolding s1 by (auto simp: column_mask_def hasnans_def isnull_values_def)
  from step_mask[OF gc 3] obtain cd3 where
    s3: "input_cols s3 = [\<lparr>tc_data = cd1, tc_nulls = [False, False]\<rparr>,
                            \<lparr>tc_data = cd2, tc_nulls = [False, True]\<rparr>,
                            \<lparr>tc_data = cd3, tc_nulls = [False, True]\<rparr>]"
    unfolding s2 by (auto simp: column_mask_def hasnans_def)
  show ?thesis using gc o s3 by (simp add: isnull_values_def)
qed

theorem stale_mask_emitted_witness:
  "\<exists>outs. build_input_columnar spec_utils stale_mask_table False = Inr outs \<and>
     map tc_nulls outs = [[False, False], [False, True], [False, True]]"
proof -
  have "\<exists>outs. build_input_columnar spec_utils stale_mask_table False = Inr outs"
    by (simp add: example_defs eval_defs)
  then obtain outs where o: "build_input_columnar spec_utils stale_mask_table False = Inr outs" ..
  from stale_mask_emitted [OF o] o show ?thesis by simp
qed


text \<open>
  C5, as the claim states it, fails: for a wire type that is not DATE, TIME or TIMESTAMP
  \<^verbatim>\<open>thrift_cast\<close> does not return the column; the function ends without a return
  statement and its result is \<open>None\<close>.
\<close>

theorem thrift_cast_other_counterexample:
  "thrift_cast spec_utils int_column ''INT'' = Inr None \<and>
   thrift_cast spec_utils int_column ''INT'' \<noteq> Inr (Some int_column)"
  by (simp add: thrift_cast_def)

text \<open>
  C5, amended. For a wire type outside DATE, TIME and TIMESTAMP, \<^verbatim>\<open>thrift_cast\<close> returns
  \<open>None\<close>; the encoder does not call it for such a type, and the column it substitutes the
  sentinel in and places in the output slot is the source column itself: when an iteration
  of the loop returns, the buffer in the slot is the source column if nothing is missing,
  and otherwise the source column with the sentinel filled in (and coerced to int64 for
  the types that are not FLOAT, DOUBLE, VARCHAR or STR).
\<close>

theorem thrift_cast_other_none:
  assumes "mapd_type \<notin> {''DATE'', ''TIME'', ''TIMESTAMP''}"
  shows "thrift_cast U data' mapd_type = Inr None \<and>
    (getitem df col = Inr data \<and> get_mapd_dtype data = Inr mapd_type \<and>
     build_input_columnar_step U df st col = Inr st' \<longrightarrow>
       (\<exists>slot d. mapd_to_slot U mapd_type = Some slot \<and>
          TColumnData_kw slot d = Inr (tc_data (last (input_cols st'))) \<and>
          (if hasnans data
           then \<exists>na. mapd_to_na U mapd_type = Some na \<and>
                  ebind (fillna data na)
                    (\<lambda>f. if mapd_type \<notin> {''FLOAT'', ''DOUBLE'', ''VARCHAR'', ''STR''}
                         then astype_int64 f else Inr f) = Inr d
           else d = data)))"
proof (intro conjI impI)
  show "thrift_cast U data' mapd_type = Inr None"
    using assms by (simp add: thrift_cast_def)
next
  assume h: "getitem df col = Inr data \<and> get_mapd_dtype data = Inr mapd_type \<and>
     build_input_columnar_step U df st col = Inr st'"
  have nt: "mapd_type \<notin> {''TIME'', ''TIMESTAMP'', ''DATE''}"
    using assms by blast
  from h have p: "column_payload U data mapd_type = Inr (tc_data (last (input_cols st')))"
    using step_payload by blast
  show "\<exists>slot d. mapd_to_slot U mapd_type = Some slot \<and>
          TColumnData_kw slot d = Inr (tc_data (last (input_cols st'))) \<and>
          (if hasnans data
           then \<exists>na. mapd_to_na U mapd_type = Some na \<and>
                  ebind (fillna data na)
                    (\<lambda>f. if mapd_type \<notin> {''FLOAT'', ''DOUBLE'', ''VARCHAR'', ''STR''}
                         then astype_int64 f else Inr f) = Inr d
           else d = data)"
  proof (cases "hasnans data")
    case False
    from payload_plain_Inr[OF nt False p] obtain slot where
      "mapd_to_slot U mapd_type = Some slot"
      "TColumnData_kw slot data = Inr (tc_data (last (input_cols st')))" by blast
    then show ?thesis using False by (intro exI[of _ slot] exI[of _ data]) simp
  next
    case True
    from payload_nulls_Inr[OF True p] obtain d na f d2 slot where
      c: "(if mapd_type \<in> {''TIME'', ''TIMESTAMP'', ''DATE''}
       then thrift_cast U data mapd_type else Inr (Some data)) = Inr (Some d)"
      and na: "mapd_to_na U mapd_type = Some na"
      and f: "fillna d na = Inr f"
      and a: "(if mapd_type \<notin> {''FLOAT'', ''DOUBLE'', ''VARCHAR'', ''STR''}
       then astype_int64 f else Inr f) = Inr d2"
      and s: "mapd_to_slot U mapd_type = Some slot"
        "TColumnData_kw slot d2 = Inr (tc_data (last (input_cols st')))"
      by blast
    from c have "d = data" unfolding if_not_P[OF nt] by simp
    with f a have "ebind (fillna data na)
                    (\<lambda>f. if mapd_type \<notin> {''FLOAT'', ''DOUBLE'', ''VARCHAR'', ''STR''}
                         then astype_int64 f else Inr f) = Inr d2"
      by simp
    with na s True show ?thesis
      by (intro exI[of _ slot] exI[of _ d2]) (simp only: if_True, blast)
  qed
qed

theorem thrift_cast_other_none_witness:
  "thrift_cast spec_utils int_column ''BIGINT'' = Inr None \<and>
   (\<exists>st' slot d. build_input_columnar_step spec_utils stale_mask_table init_state ''a'' = Inr st' \<and>
      mapd_to_slot spec_utils ''BIGINT'' = Some slot \<and>
      TColumnData_kw slot d = Inr (tc_data (last (input_cols st'))) \<and>
      d = int_column)"
proof -
  have h0: "''BIGINT'' \<notin> {''DATE'', ''TIME'', ''TIMESTAMP''}" by simp
  have h1: "getitem stale_mask_table ''a'' = Inr int_column"
    by (simp add: getitem_def stale_mask_table_def int_column_def)
  have h2: "get_mapd_dtype int_column = Inr ''BIGINT''"
    by (simp add: int_column_def eval_defs)
  have h3: "\<not> hasnans int_column" by (simp add: int_column_def hasnans_def)
  have "\<exists>st'. build_input_columnar_step spec_utils stale_mask_table init_state ''a'' = Inr st'"
    by (simp add: example_defs eval_defs)
  then obtain st' where
    h5: "build_input_columnar_step spec_utils stale_mask_table init_state ''a'' = Inr st'" ..
  from thrift_cast_other_none [OF h0, of spec_utils int_column stale_mask_table "''a''"
      int_column init_state st'] h1 h2 h3 h5
  show ?thesis by auto
qed




text \<open>
  C7. For a column with a missing value whose resolved wire type is not FLOAT, DOUBLE or
  STR: whenever an iteration of the loop returns, the buffer in the output slot is the
  int64 coercion \<open>buf\<close> of the column \<open>f\<close> in which the sentinel was substituted (after the
  normalization, for the time-like types). \<open>f\<close> holds the sentinel (as given, or as a
  float in a float column) at the missing positions and the column's own values elsewhere;
  \<open>buf\<close> has the 8-byte signed integer dtype and one element per row, each an integer of
  the 64-bit range: the integer itself for an integer, 0 or 1 for a boolean, the truncated
  value for a float, the parsed number for a string. And the iteration does return when
  every element of \<open>f\<close> is of this kind and the slot is a field of the structure.
\<close>

theorem nulls_integer_family_int64:
  assumes "getitem df col = Inr data"
    and "get_mapd_dtype data = Inr mapd_type"
    and "hasnans data"
    and "mapd_type \<notin> {''FLOAT'', ''DOUBLE'', ''STR''}"
  shows
   "(build_input_columnar_step U df st col = Inr st' \<longrightarrow>
      (\<exists>d na f buf slot.
         (if mapd_type \<in> {''TIME'', ''TIMESTAMP'', ''DATE''}
          then thrift_cast U data mapd_type else Inr (Some data)) = Inr (Some d) \<and>
         mapd_to_na U mapd_type = Some na \<and>
         fillna d na = Inr f \<and> astype_int64 f = Inr buf \<and>
         mapd_to_slot U mapd_type = Some slot \<and>
         TColumnData_kw slot buf = Inr (tc_data (last (input_cols st'))) \<and>
         s_dtype buf = int64 \<and>
         length (s_items f) = length (s_items d) \<and>
         length (s_items buf) = length (s_items d) \<and>
         (\<forall>i < length (s_items d).
            (isnull (s_items d ! i) \<longrightarrow>
               s_items f ! i = na \<or> s_items f ! i = as_float na) \<and>
            (\<not> isnull (s_items d ! i) \<longrightarrow> s_items f ! i = s_items d ! i) \<and>
            int64_value (s_items buf ! i) \<and>
            (\<forall>n. s_items f ! i = PyInt n \<and> in_int64 n \<longrightarrow> s_items buf ! i = PyInt n) \<and>
            (\<forall>b. s_items f ! i = PyBool b \<longrightarrow>
                   s_items buf ! i = PyInt (if b then 1 else 0)) \<and>
            (\<forall>x. s_items f ! i = PyFloat x \<and> in_int64 (trunc x) \<longrightarrow>
                   s_items buf ! i = PyInt (trunc x)) \<and>
            (\<forall>s. s_items f ! i = PyStr s \<longrightarrow>
                   (\<exists>n. parse_int s = Some n \<and> s_items buf ! i = PyInt n))))) \<and>
    ((\<exists>d na f slot.
         (if mapd_type \<in> {''TIME'', ''TIMESTAMP'', ''DATE''}
          then thrift_cast U data mapd_type else Inr (Some data)) = Inr (Some d) \<and>
         mapd_to_na U mapd_type = Some na \<and>
         fillna d na = Inr f \<and> list_all int64_convertible (s_items f) \<and>
         mapd_to_slot U mapd_type = Some slot \<and>
         slot \<in> {''int_col'', ''real_col'', ''str_col'', ''arr_col''}) \<longrightarrow>
      (\<exists>st''. build_input_columnar_step U df st col = Inr st''))"
proof (intro conjI impI)
  have "mapd_type \<noteq> ''VARCHAR''"
    using resolver_range[OF assms(2)] by auto
  then have fam: "mapd_type \<notin> {''FLOAT'', ''DOUBLE'', ''VARCHAR'', ''STR''}"
    using assms(4) by blast
  {
    assume s: "build_input_columnar_step U df st col = Inr st'"
    have p: "column_payload U data mapd_type = Inr (tc_data (last (input_cols st')))"
      using step_payload[OF assms(1,2) s] .
    from payload_nulls_Inr[OF assms(3) p] obtain d na f buf slot where
      c: "(if mapd_type \<in> {''TIME'', ''TIMESTAMP'', ''DATE''}
         then thrift_cast U data mapd_type else Inr (Some data)) = Inr (Some d)"
      and na: "mapd_to_na U mapd_type = Some na"
      and f: "fillna d na = Inr f"
      and a: "astype_int64 f = Inr buf"
      and sl: "mapd_to_slot U mapd_type = Some slot"
        "TColumnData_kw slot buf = Inr (tc_data (last (input_cols st')))"
      unfolding if_P[OF fam] by blast
    note A = astype_int64_Inr[OF a]
    note F = fillna_Inr[OF f]
    have lf: "length (s_items f) = length (s_items d)" using F by simp
    have lb: "length (s_items buf) = length (s_items d)" using A F by simp
    have pos: "(isnull (s_items d ! i) \<longrightarrow>
               s_items f ! i = na \<or> s_items f ! i = as_float na) \<and>
            (\<not> isnull (s_items d ! i) \<longrightarrow> s_items f ! i = s_items d ! i) \<and>
            int64_value (s_items buf ! i) \<and>
            (\<forall>n. s_items f ! i = PyInt n \<and> in_int64 n \<longrightarrow> s_items buf ! i = PyInt n) \<and>
            (\<forall>b. s_items f ! i = PyBool b \<longrightarrow>
                   s_items buf ! i = PyInt (if b then 1 else 0)) \<and>
            (\<forall>x. s_items f ! i = PyFloat x \<and> in_int64 (trunc x) \<longrightarrow>
                   s_items buf ! i = PyInt (trunc x)) \<and>
            (\<forall>s. s_items f ! i = PyStr s \<longrightarrow>
                   (\<exists>n. parse_int s = Some n \<and> s_items buf ! i = PyInt n))"
      if i: "i < length (s_items d)" for i
    proof -
      from i lf have i': "i < length (s_items f)" by simp
      from A i' have e:
        "element_to_int64 (kind (s_dtype f)) (s_items f ! i) = Inr (s_items buf ! i)" by simp
      have 1: "isnull (s_items d ! i) \<longrightarrow>
               s_items f ! i = na \<or> s_items f ! i = as_float na"
        using F i by auto
      have 2: "\<not> isnull (s_items d ! i) \<longrightarrow> s_items f ! i = s_items d ! i"
        using F i by auto
      have 3: "int64_value (s_items buf ! i)"
        using element_to_int64_value[OF e] .
      have 4: "s_items buf ! i = PyInt n" if "s_items f ! i = PyInt n \<and> in_int64 n" for n
        using e that by (simp add: element_to_int64_int)
      have 5: "s_items buf ! i = PyInt (if b then 1 else 0)" if "s_items f ! i = PyBool b" for b
        using e that by (simp add: element_to_int64_bool)
      have 6: "s_items buf ! i = PyInt (trunc x)"
        if "s_items f ! i = PyFloat x \<and> in_int64 (trunc x)" for x
        using e that by (simp add: element_to_int64_float)
      have 7: "\<exists>n. parse_int s = Some n \<and> s_items buf ! i = PyInt n"
        if "s_items f ! i = PyStr s" for s
        using e that by (auto simp: element_to_int64_str split: option.splits if_splits)
      from 1 2 3 4 5 6 7 show ?thesis by blast
    qed
    from c na f a sl A lf lb pos
    have "\<exists>d na f buf slot.
         (if mapd_type \<in> {''TIME'', ''TIMESTAMP'', ''DATE''}
          then thrift_cast U data mapd_type else Inr (Some data)) = Inr (Some d) \<and>
         mapd_to_na U mapd_type = Some na \<and>
         fillna d na = Inr f \<and> astype_int64 f = Inr buf \<and>
         mapd_to_slot U mapd_type = Some slot \<and>
         TColumnData_kw slot buf = Inr (tc_data (last (input_cols st'))) \<and>
         s_dtype buf = int64 \<and>
         length (s_items f) = length (s_items d) \<and>
         length (s_items buf) = length (s_items d) \<and>
         (\<forall>i < length (s_items d).
            (isnull (s_items d ! i) \<longrightarrow>
               s_items f ! i = na \<or> s_items f ! i = as_float na) \<and>
            (\<not> isnull (s_items d ! i) \<longrightarrow> s_items f ! i = s_items d ! i) \<and>
            int64_value (s_items buf ! i) \<and>
            (\<forall>n. s_items f ! i = PyInt n \<and> in_int64 n \<longrightarrow> s_items buf ! i = PyInt n) \<and>
            (\<forall>b. s_items f ! i = PyBool b \<longrightarrow>
                   s_items buf ! i = PyInt (if b then 1 else 0)) \<and>
            (\<forall>x. s_items f ! i = PyFloat x \<and> in_int64 (trunc x) \<longrightarrow>
                   s_items buf ! i = PyInt (trunc x)) \<and>
            (\<forall>s. s_items f ! i = PyStr s \<longrightarrow>
                   (\<exists>n. parse_int s = Some n \<and> s_items buf ! i = PyInt n)))"
      by (intro exI[of _ d] exI[of _ na] exI[of _ f] exI[of _ buf] exI[of _ slot]) simp
  }
  then show "build_input_columnar_step U df st col = Inr st' \<Longrightarrow>
      \<exists>d na f buf slot.
         (if mapd_type \<in> {''TIME'', ''TIMESTAMP'', ''DATE''}
          then thrift_cast U data mapd_type else Inr (Some data)) = Inr (Some d) \<and>
         mapd_to_na U mapd_type = Some na \<and>
         fillna d na = Inr f \<and> astype_int64 f = Inr buf \<and>
         mapd_to_slot U mapd_type = Some slot \<and>
         TColumnData_kw slot buf = Inr (tc_data (last (input_cols st'))) \<and>
         s_dtype buf = int64 \<and>
         length (s_items f) = length (s_items d) \<and>
         length (s_items buf) = length (s_items d) \<and>
         (\<forall>i < length (s_items d).
            (isnull (s_items d ! i) \<longrightarrow>
               s_items f ! i = na \<or> s_items f ! i = as_float na) \<and>
            (\<not> isnull (s_items d ! i) \<longrightarrow> s_items f ! i = s_items d ! i) \<and>
            int64_value (s_items buf ! i) \<and>
            (\<forall>n. s_items f ! i = PyInt n \<and> in_int64 n \<longrightarrow> s_items buf ! i = PyInt n) \<and>
            (\<forall>b. s_items f ! i = PyBool b \<longrightarrow>
                   s_items buf ! i = PyInt (if b then 1 else 0)) \<and>
            (\<forall>x. s_items f ! i = PyFloat x \<and> in_int64 (trunc x) \<longrightarrow>
                   s_items buf ! i = PyInt (trunc x)) \<and>
            (\<forall>s. s_items f ! i = PyStr s \<longrightarrow>
                   (\<exists>n. parse_int s = Some n \<and> s_items buf ! i = PyInt n)))" .
  assume "\<exists>d na f slot.
         (if mapd_type \<in> {''TIME'', ''TIMESTAMP'', ''DATE''}
          then thrift_cast U data mapd_type else Inr (Some data)) = Inr (Some d) \<and>
         mapd_to_na U mapd_type = Some na \<and>
         fillna d na = Inr f \<and> list_all int64_convertible (s_items f) \<and>
         mapd_to_slot U mapd_type = Some slot \<and>
         slot \<in> {''int_col'', ''real_col'', ''str_col'', ''arr_col''}"
  then obtain d na f slot where
    c: "(if mapd_type \<in> {''TIME'', ''TIMESTAMP'', ''DATE''}
          then thrift_cast U data mapd_type else Inr (Some data)) = Inr (Some d)"
    and na: "mapd_to_na U mapd_type = Some na"
    and f: "fillna d na = Inr f" and cv: "list_all int64_convertible (s_items f)"
    and sl: "mapd_to_slot U mapd_type = Some slot"
    and fld: "slot \<in> {''int_col'', ''real_col'', ''str_col'', ''arr_col''}"
    by blast
  from astype_int64_returns[OF cv] obtain buf where a: "astype_int64 f = Inr buf" ..
  from TColumnData_kw_returns[OF fld] obtain cd where k: "TColumnData_kw slot buf = Inr cd" ..
  have a': "(if mapd_type \<notin> {''FLOAT'', ''DOUBLE'', ''VARCHAR'', ''STR''}
       then astype_int64 f else Inr f) = Inr buf"
    unfolding if_P[OF fam] by (rule a)
  have "column_payload U data mapd_type = Inr cd"
    using payload_nulls_returns[OF assms(3) c na f a' sl k] .
  from step_returns[OF assms(1,2) this] assms(3)
  show "\<exists>st''. build_input_columnar_step U df st col = Inr st''" by blast
qed

theorem nulls_integer_family_int64_witness:
  "\<exists>st' buf. build_input_columnar_step spec_utils mixed_table init_state ''m'' = Inr st' \<and>
      int_col (tc_data (last (input_cols st'))) = Some buf \<and>
      s_dtype buf = int64 \<and>
      length (s_items buf) = 4 \<and>
      s_items buf ! 0 = PyInt 5 \<and>
      s_items buf ! 1 = PyInt 7 \<and>
      s_items buf ! 2 = PyInt 1 \<and>
      s_items buf ! 3 = PyInt (- 2147483648)"
proof -
  have h1: "getitem mixed_table ''m'' = Inr mixed_ints"
    by (simp add: getitem_def mixed_table_def)
  have h2: "get_mapd_dtype mixed_ints = Inr ''INT''"
    by (simp add: mixed_ints_def eval_defs)
  have h3: "hasnans mixed_ints" by (simp add: mixed_ints_def hasnans_def)
  have h4: "''INT'' \<notin> {''FLOAT'', ''DOUBLE'', ''STR''}" by simp
  note T = nulls_integer_family_int64 [OF h1 h2 h3 h4, where U = spec_utils and st = init_state]
  have f0: "fillna mixed_ints (PyInt (- 2147483648)) =
      Inr \<lparr>s_dtype = object_dtype,
           s_items = [PyInt 5, PyStr ''7'', PyBool True, PyInt (- 2147483648)]\<rparr>"
    by (simp add: fillna_def mixed_ints_def hasnans_def is_float_dtype_def object_dtype_def)
  have "\<exists>d na f slot.
         (if ''INT'' \<in> {''TIME'', ''TIMESTAMP'', ''DATE''}
          then thrift_cast spec_utils mixed_ints ''INT'' else Inr (Some mixed_ints)) = Inr (Some d) \<and>
         mapd_to_na spec_utils ''INT'' = Some na \<and>
         fillna d na = Inr f \<and> list_all int64_convertible (s_items f) \<and>
         mapd_to_slot spec_utils ''INT'' = Some slot \<and>
         slot \<in> {''int_col'', ''real_col'', ''str_col'', ''arr_col''}"
    by (intro exI[of _ mixed_ints] exI[of _ "PyInt (- 2147483648)"]
          exI[of _ "\<lparr>s_dtype = object_dtype,
               s_items = [PyInt 5, PyStr ''7'', PyBool True, PyInt (- 2147483648)]\<rparr>"]
          exI[of _ "''int_col''"])
       (simp add: f0 spec_utils_def in_int64_def parse_int_def py_space_def py_digit_def)
  with T [THEN conjunct2] obtain st' where
    h5: "build_input_columnar_step spec_utils mixed_table init_state ''m'' = Inr st'" by blast
  from T [where st' = st', THEN conjunct1] h5 obtain d na f buf slot where
    d: "(if ''INT'' \<in> {''TIME'', ''TIMESTAMP'', ''DATE''}
          then thrift_cast spec_utils mixed_ints ''INT'' else Inr (Some mixed_ints)) = Inr (Some d)"
    and na: "mapd_to_na spec_utils ''INT'' = Some na"
    and f: "fillna d na = Inr f"
    and sl: "mapd_to_slot spec_utils ''INT'' = Some slot"
    and k: "TColumnData_kw slot buf = Inr (tc_data (last (input_cols st')))"
    and t: "s_dtype buf = int64"
    and l: "length (s_items buf) = length (s_items d)"
    and p: "\<forall>i < length (s_items d).
            (isnull (s_items d ! i) \<longrightarrow>
               s_items f ! i = na \<or> s_items f ! i = as_float na) \<and>
            (\<not> isnull (s_items d ! i) \<longrightarrow> s_items f ! i = s_items d ! i) \<and>
            int64_value (s_items buf ! i) \<and>
            (\<forall>n. s_items f ! i = PyInt n \<and> in_int64 n \<longrightarrow> s_items buf ! i = PyInt n) \<and>
            (\<forall>b. s_items f ! i = PyBool b \<longrightarrow>
                   s_items buf ! i = PyInt (if b then 1 else 0)) \<and>
            (\<forall>x. s_items f ! i = PyFloat x \<and> in_int64 (trunc x) \<longrightarrow>
                   s_items buf ! i = PyInt (trunc x)) \<and>
            (\<forall>s. s_items f ! i = PyStr s \<longrightarrow>
                   (\<exists>n. parse_int s = Some n \<and> s_items buf ! i = PyInt n))"
    by auto
  from d have dv: "d = mixed_ints" by simp
  from na have nv: "na = PyInt (- 2147483648)" by (simp add: spec_utils_def)
  from f dv nv f0 have "f = \<lparr>s_dtype = object_dtype,
           s_items = [PyInt 5, PyStr ''7'', PyBool True, PyInt (- 2147483648)]\<rparr>"
    by simp
  then have fv: "s_items f = [PyInt 5, PyStr ''7'', PyBool True, PyInt (- 2147483648)]"
    by simp
  from sl have sv: "slot = ''int_col''" by (simp add: spec_utils_def)
  from k sv have "tc_data (last (input_cols st')) =
      \<lparr>int_col = Some buf, real_col = None, str_col = None, arr_col = None\<rparr>"
    by (simp add: TColumnData_kw_def)
  then have b: "int_col (tc_data (last (input_cols st'))) = Some buf" by simp
  from l dv have lv: "length (s_items buf) = 4" by (simp add: mixed_ints_def)
  have ld: "length (s_items d) = 4" using dv by (simp add: mixed_ints_def)
  from p [rule_format, of 0] ld fv have p0: "s_items buf ! 0 = PyInt 5"
    by (simp add: in_int64_def)
  from p [rule_format, of 1] ld fv have p1: "s_items buf ! 1 = PyInt 7"
    by (simp add: parse_int_def py_space_def py_digit_def)
  from p [rule_format, of 2] ld fv have p2: "s_items buf ! 2 = PyInt 1"
    by auto
  from p [rule_format, of 3] ld fv have p3: "s_items buf ! 3 = PyInt (- 2147483648)"
    by (simp add: in_int64_def)
  from h5 b t lv p0 p1 p2 p3 show ?thesis by blast
qed

section \<open>Properties of the schema describer\<close>

text \<open>
  C8, as the claim states it, fails: handed an object that is not a DataFrame,
  \<^verbatim>\<open>build_row_desc\<close> raises a TypeError, not an ImportError.
\<close>

theorem row_desc_not_table_counterexample:
  "build_row_desc spec_utils True RecordBatch False = Inl TypeError \<and>
   build_row_desc spec_utils True RecordBatch False \<noteq> Inl ImportError"
  by (simp add: build_row_desc_def)

text \<open>
  C8, amended. For every input that is not a DataFrame, \<^verbatim>\<open>build_row_desc\<close> fails with a
  TypeError when pandas can be imported (and with the ImportError of the failed import
  otherwise), whatever the helper tables and the \<^verbatim>\<open>preserve_index\<close> flag are: no column
  is processed and nothing is returned.
\<close>

theorem row_desc_not_table:
  assumes "\<forall>df. data \<noteq> DataFrame df"
  shows "build_row_desc U pandas_importable data preserve_index =
           (if pandas_importable then Inl TypeError else Inl ImportError)"
  using assms by (cases data) (simp_all add: build_row_desc_def)

theorem row_desc_not_table_witness:
  "(\<forall>df. Table \<noteq> DataFrame df) \<and>
   build_row_desc spec_utils True Table True = Inl TypeError \<and>
   build_row_desc spec_utils False Table True = Inl ImportError"
  using row_desc_not_table [of Table spec_utils True True]
    row_desc_not_table [of Table spec_utils False True]
  by simp

section \<open>The index column\<close>



end
